theory Spec2Isabelle
  imports Complex_Main "HOL-Library.AList"
begin

section \<open>Strings and paths\<close>

text \<open>
  Python strings are character lists. The string operations the program uses are written
  out: \<open>str.split(sep)\<close> for a one-character separator, \<open>str.replace(old, new)\<close> for a
  non-empty \<open>old\<close> (the program only replaces the constants \<open>.zip\<close>, \<open>.txt\<close> and
  \<open>.SAFE\<close>), \<open>str.endswith\<close>, \<open>str.startswith\<close>, and the POSIX forms of
  \<open>os.path.basename\<close> and \<open>os.path.join\<close>.
\<close>

type_synonym path = string

fun split_on :: "char \<Rightarrow> string \<Rightarrow> string list" where
  "split_on sep [] = [[]]"
| "split_on sep (c # cs) =
     (if c = sep then [] # split_on sep cs
      else (case split_on sep cs of
              [] \<Rightarrow> [[c]]
            | p # ps \<Rightarrow> (c # p) # ps))"

definition startswith :: "string \<Rightarrow> string \<Rightarrow> bool" where
  "startswith s p = (take (length p) s = p)"

definition endswith :: "string \<Rightarrow> string \<Rightarrow> bool" where
  "endswith s p = (length p \<le> length s \<and> drop (length s - length p) s = p)"

text \<open>
  \<open>replace_from old new k s\<close> scans \<open>s\<close> from the left; \<open>k\<close> counts the characters
  of a match that are still to be skipped.
\<close>

fun replace_from :: "string \<Rightarrow> string \<Rightarrow> nat \<Rightarrow> string \<Rightarrow> string" where
  "replace_from old new k [] = []"
| "replace_from old new (Suc k) (c # cs) = replace_from old new k cs"
| "replace_from old new 0 (c # cs) =
     (if old \<noteq> [] \<and> startswith (c # cs) old
      then new @ replace_from old new (length old - 1) cs
      else c # replace_from old new 0 cs)"

definition str_replace :: "string \<Rightarrow> string \<Rightarrow> string \<Rightarrow> string" where
  "str_replace s old new = replace_from old new 0 s"

definition basename :: "path \<Rightarrow> string" where
  "basename p = rev (takeWhile (\<lambda>c. c \<noteq> CHR ''/'') (rev p))"

definition join :: "path \<Rightarrow> string \<Rightarrow> path" where
  "join a b =
     (if startswith b ''/'' then b
      else if a = [] \<or> endswith a ''/'' then a @ b
      else a @ ''/'' @ b)"

text \<open>Python's \<open>xs[i]\<close> for a non-negative index: out of range is an IndexError.\<close>

definition index_opt :: "'a list \<Rightarrow> nat \<Rightarrow> 'a option" where
  "index_opt xs i = (if i < length xs then Some (xs ! i) else None)"

section \<open>The outside world\<close>

text \<open>
  Everything the program reaches through the operating system, the clock, the random
  generator and the network is explicit. The record \<open>env\<close> holds what the outside
  decides (it never changes during a run), the record \<open>world\<close> holds what the program
  changes. Exceptions are values of type \<open>exc\<close>.

  A \<open>datetime\<close> is a number of microseconds on the naive local time line, so that the
  difference of two of them is a \<open>timedelta\<close>; \<open>total_seconds\<close> divides by \<open>10^6\<close>.
  The standard library's \<open>strftime\<close> and \<open>strptime\<close> for the lease format
  \<open>%Y%m%dt%H%M%S\<close> are fields of \<open>env\<close> (\<open>strptime\<close> answers \<open>None\<close> where
  Python raises ValueError).
\<close>

type_synonym datetime = int

datatype exc = AssertionError | KeyError | IndexError | ValueError | TypeError
  | AttributeError | RuntimeError | OSError

record file_node =
  content :: string
  mode :: nat

datatype json_body = Malformed | JsonObject "(string \<times> string) list"

datatype post_result = PostRaises | PostResponse int json_body

record payload =
  client_id :: string
  username :: string
  password :: string
  grant_type :: string

datatype header_int = Absent | NotInt string | IsInt int

datatype stream_end = Complete | ChunkedEncodingError | StreamException string

record response =
  status_code :: int
  reason :: string
  content_length :: header_int
  chunks :: "string list"
  stream_end :: stream_end

datatype get_result = GetRaises string | GetResponse response

datatype zip_test = ZipGood | ZipBadMember | BadZipFile | ZipOSError | ZipOtherError

record env =
  strftime :: "datetime \<Rightarrow> string"
  strptime :: "string \<Rightarrow> datetime option"
  clock :: "nat \<Rightarrow> datetime"
  timer :: "nat \<Rightarrow> real"
  rng :: "nat \<Rightarrow> nat"
  identity :: "nat \<Rightarrow> post_result"
  endpoint :: "nat \<Rightarrow> get_result"
  open_error :: "path \<Rightarrow> string option"
  remove_denied :: "path \<Rightarrow> bool"
  move_denied :: "path \<Rightarrow> path \<Rightarrow> bool"
  chmod_denied :: "path \<Rightarrow> bool"
  zipfile_test :: "path \<Rightarrow> zip_test"
  create_mode :: nat

record world =
  fs :: "(path \<times> file_node) list"
  ticks :: nat
  time_reads :: nat
  draws :: nat
  posts :: "payload list"
  gets :: "(string \<times> string) list"

text \<open>
  The configuration dictionary that \<open>get_conf\<close> loads from YAML. An account group is
  a dictionary from login to password; its key order is the order of the YAML file, so it is
  an association list. \<open>URL_download\<close> is the template applied to a product id.
\<close>

record conf =
  URL_identity :: string
  URL_download :: "string \<Rightarrow> string"
  token_directory :: path
  active_session_directory :: path
  pre_spool :: path
  spool :: path
  archive :: path
  groups :: "string \<Rightarrow> (string \<times> string) list option"

definition today :: "env \<Rightarrow> world \<Rightarrow> datetime \<times> world" where
  "today e w = (clock e (ticks w), w\<lparr>ticks := Suc (ticks w)\<rparr>)"

definition total_seconds :: "int \<Rightarrow> real" where
  "total_seconds delta = real_of_int delta / 1000000"

definition path_exists :: "world \<Rightarrow> path \<Rightarrow> bool" where
  "path_exists w p = (map_of (fs w) p \<noteq> None)"

text \<open>\<open>os.remove\<close>: \<open>None\<close> is an OSError (the path is missing, or the system refuses).\<close>

definition os_remove :: "env \<Rightarrow> world \<Rightarrow> path \<Rightarrow> world option" where
  "os_remove e w p =
     (if map_of (fs w) p = None \<or> remove_denied e p then None
      else Some (w\<lparr>fs := AList.delete p (fs w)\<rparr>))"

text \<open>
  \<open>open(p, "w")\<close> followed by one write and the close: \<open>Inl msg\<close> is the exception
  of \<open>open\<close>, with \<open>msg\<close> its text. A new file gets the creation mode of the process,
  an existing one keeps its mode.
\<close>

definition write_file :: "env \<Rightarrow> world \<Rightarrow> path \<Rightarrow> string \<Rightarrow> string + world" where
  "write_file e w p s =
     (case open_error e p of
        Some msg \<Rightarrow> Inl msg
      | None \<Rightarrow>
          Inr (w\<lparr>fs := AList.update p
                  \<lparr>content = s,
                   mode = (case map_of (fs w) p of Some f \<Rightarrow> mode f | None \<Rightarrow> create_mode e)\<rparr>
                  (fs w)\<rparr>))"

text \<open>\<open>random.choice\<close> on a non-empty list (every caller checks that first).\<close>

definition random_choice :: "env \<Rightarrow> world \<Rightarrow> 'a list \<Rightarrow> 'a \<times> world" where
  "random_choice e w xs = (xs ! (rng e (draws w) mod length xs), w\<lparr>draws := Suc (draws w)\<rparr>)"

section \<open>fetch_access_token.py\<close>

definition MAX_VALIDITY_ACCESS_TOKEN :: int where
  "MAX_VALIDITY_ACCESS_TOKEN = 600"

definition token_file_name :: "env \<Rightarrow> string \<Rightarrow> datetime \<Rightarrow> string" where
  "token_file_name e login date_generation_access_token =
     ''CDSE_access_token_'' @ login @ ''_'' @ strftime e date_generation_access_token @ ''.txt''"

text \<open>
  \<open>write_token_semphore_file\<close>. Directories are not modelled, so the \<open>os.makedirs\<close>
  of the token directory (whose failure is only logged) leaves no trace.
\<close>

definition write_token_semphore_file ::
  "env \<Rightarrow> string \<Rightarrow> datetime \<Rightarrow> path \<Rightarrow> string \<Rightarrow> world \<Rightarrow> path option \<times> world" where
  "write_token_semphore_file e login date_generation_access_token token_dir access_token w =
     (let path_semphore_token =
            join token_dir (token_file_name e login date_generation_access_token)
      in case write_file e w path_semphore_token access_token of
           Inl msg \<Rightarrow> (None, w)
         | Inr w' \<Rightarrow> (Some path_semphore_token, w'))"

text \<open>
  \<open>get_bearer_access_token\<close> returns the tuple
  \<open>(token, date_generation_access_token, login, path_semphore_token)\<close>, each component
  possibly \<open>None\<close>. The request sent to the identity endpoint is appended to \<open>posts\<close>;
  the answer to the \<open>k\<close>-th request of a run is \<open>identity e k\<close>. \<open>raise_for_status\<close>
  raises for the status codes 400 to 599. A well-formed body is taken to be a JSON object
  with string values.
\<close>

type_synonym token_result = "string option \<times> datetime option \<times> string option \<times> path option"

definition all_None :: token_result where
  "all_None = (None, None, None, None)"

definition get_bearer_access_token ::
  "env \<Rightarrow> conf \<Rightarrow> string option \<Rightarrow> string option \<Rightarrow> string \<Rightarrow> world
     \<Rightarrow> (exc + token_result) \<times> world" where
  "get_bearer_access_token e cf specific_account passwd account_group w =
     (let chosen =
        (case specific_account of
           None \<Rightarrow>
             (case groups cf account_group of
                None \<Rightarrow> (Inl KeyError, w)
              | Some accounts \<Rightarrow>
                  (case accounts of
                     [] \<Rightarrow> (Inr None, w)
                   | first # _ \<Rightarrow>
                       (let (login, w1) = random_choice e w (map fst accounts)
                        in (Inr (Some (login,
                              (case passwd of None \<Rightarrow> snd first | Some p \<Rightarrow> p))), w1))))
         | Some login \<Rightarrow>
             (case passwd of
                Some p \<Rightarrow> (Inr (Some (login, p)), w)
              | None \<Rightarrow>
                  (case groups cf account_group of
                     None \<Rightarrow> (Inl KeyError, w)
                   | Some accounts \<Rightarrow>
                       (case map_of accounts login of
                          None \<Rightarrow> (Inr None, w)
                        | Some p \<Rightarrow> (Inr (Some (login, p)), w)))))
      in case chosen of
           (Inl x, w0) \<Rightarrow> (Inl x, w0)
         | (Inr None, w0) \<Rightarrow> (Inr all_None, w0)
         | (Inr (Some (login, pw)), w0) \<Rightarrow>
             (let (date_generation_access_token, w1) = today e w0;
                  request = \<lparr>client_id = ''cdse-public'', username = login,
                             password = pw, grant_type = ''password''\<rparr>;
                  w2 = w1\<lparr>posts := posts w1 @ [request]\<rparr>
              in case identity e (length (posts w1)) of
                   PostRaises \<Rightarrow> (Inr all_None, w2)
                 | PostResponse code body \<Rightarrow>
                     if 400 \<le> code \<and> code < 600 then (Inr all_None, w2)
                     else (case body of
                             Malformed \<Rightarrow> (Inr all_None, w2)
                           | JsonObject data \<Rightarrow>
                               (case map_of data ''access_token'' of
                                  None \<Rightarrow>
                                    (Inr (None, Some date_generation_access_token,
                                          Some login, None), w2)
                                | Some token \<Rightarrow>
                                    (let (path_semphore_token, w3) =
                                           write_token_semphore_file e login
                                             date_generation_access_token
                                             (token_directory cf) token w2
                                     in (Inr (Some token, Some date_generation_access_token,
                                              Some login, path_semphore_token), w3))))))"

text \<open>
  \<open>glob.glob\<close> over the token directory: the paths of the directory whose file name
  matches \<open>CDSE_access_token_*.txt\<close>, or \<open>CDSE_access_token_<account>_*.txt\<close> when an
  account is given, in the order of the directory listing.
\<close>

definition glob_tokens :: "world \<Rightarrow> path \<Rightarrow> string option \<Rightarrow> path list" where
  "glob_tokens w token_dir account =
     (let pre = ''CDSE_access_token_'' @ (case account of None \<Rightarrow> [] | Some a \<Rightarrow> a @ ''_'')
      in filter (\<lambda>p. p = join token_dir (basename p)
                    \<and> startswith (basename p) pre \<and> endswith (basename p) ''.txt''
                    \<and> length pre + 4 \<le> length (basename p))
           (map fst (fs w)))"

text \<open>
  The loop of \<open>get_list_of_exising_token\<close> over the globbed paths. The clock is read
  once for every file whose date parses.
\<close>

fun keep_unexpired :: "env \<Rightarrow> path list \<Rightarrow> path list \<Rightarrow> world \<Rightarrow> path list \<times> world" where
  "keep_unexpired e [] lst_token w = (lst_token, w)"
| "keep_unexpired e (ll # rest) lst_token w =
     (let parts = split_on CHR ''_'' (str_replace (basename ll) ''.txt'' [])
      in if length parts < 2 then keep_unexpired e rest lst_token w
         else (case strptime e (last parts) of
                 None \<Rightarrow> keep_unexpired e rest lst_token w
               | Some date_generation_access_token \<Rightarrow>
                   (if total_seconds (fst (today e w) - date_generation_access_token)
                         < real_of_int MAX_VALIDITY_ACCESS_TOKEN
                    then keep_unexpired e rest (lst_token @ [ll]) (snd (today e w))
                    else keep_unexpired e rest lst_token (snd (today e w)))))"

definition get_list_of_exising_token ::
  "env \<Rightarrow> path \<Rightarrow> string option \<Rightarrow> world \<Rightarrow> path list \<times> world" where
  "get_list_of_exising_token e token_dir account w =
     keep_unexpired e (glob_tokens w token_dir account) [] w"

definition remove_semaphore_token_file ::
  "env \<Rightarrow> path \<Rightarrow> string \<Rightarrow> datetime \<Rightarrow> world \<Rightarrow> world" where
  "remove_semaphore_token_file e token_dir login date_generation_access_token w =
     (let path_token = join token_dir (token_file_name e login date_generation_access_token)
      in if path_exists w path_token
         then (let (now, w1) = today e w
               in if total_seconds (now - date_generation_access_token)
                       \<ge> real_of_int MAX_VALIDITY_ACCESS_TOKEN
                  then (case os_remove e w1 path_token of
                          None \<Rightarrow> w1
                        | Some w2 \<Rightarrow> w2)
                  else w1)
         else w)"

section \<open>utils.py\<close>

text \<open>
  \<open>check_safe_in_outputdir\<close>. The first candidate path that exists is examined; a
  candidate ending in \<open>.zip\<close> is opened with \<open>zipfile.ZipFile\<close> and tested with
  \<open>testzip()\<close>, whose outcome is \<open>zipfile_test e\<close> of the path: the archive is good, a
  member is corrupt (\<open>testzip\<close> names it and the code raises BadZipFile itself),
  \<open>ZipFile\<close> raises BadZipFile or OSError, or the library raises something else, which
  the function does not catch.
\<close>

definition check_safe_in_outputdir ::
  "env \<Rightarrow> path \<Rightarrow> string \<Rightarrow> world \<Rightarrow> (exc + bool) \<times> world" where
  "check_safe_in_outputdir e outputdir safename w =
     (let candidates = [join outputdir (safename @ ''.zip''),
                        join outputdir safename,
                        join outputdir (str_replace safename ''.SAFE'' ''.zip'')]
      in case find (path_exists w) candidates of
           None \<Rightarrow> (Inr False, w)
         | Some potential_file \<Rightarrow>
             if potential_file = [] then (Inr False, w)
             else if endswith potential_file ''.zip''
             then (case zipfile_test e potential_file of
                     ZipGood \<Rightarrow> (Inr True, w)
                   | ZipOtherError \<Rightarrow> (Inl RuntimeError, w)
                   | _ \<Rightarrow>
                       (case os_remove e w potential_file of
                          None \<Rightarrow> (Inr False, w)
                        | Some w' \<Rightarrow> (Inr False, w')))
             else (Inr True, w))"

definition check_safe_in_spool :: "conf \<Rightarrow> string \<Rightarrow> world \<Rightarrow> bool" where
  "check_safe_in_spool cf safename w =
     (find (path_exists w)
        [join (spool cf) safename,
         join (spool cf) (safename @ ''.zip''),
         join (spool cf) (str_replace safename ''.SAFE'' ''.zip'')] \<noteq> None)"

text \<open>
  \<open>check_safe_in_archive\<close>. \<open>WhichArchiveDir\<close> derives the archive directory from the
  acquisition date in the product name with the datetime library; it enters as a
  parameter, \<open>None\<close> standing for an exception, which the function catches.
\<close>

definition check_safe_in_archive ::
  "(string \<Rightarrow> path option) \<Rightarrow> string \<Rightarrow> world \<Rightarrow> bool" where
  "check_safe_in_archive WhichArchiveDir safename w =
     (case WhichArchiveDir safename of
        None \<Rightarrow> False
      | Some archive_dir \<Rightarrow>
          (let arch_potential_file0 = join archive_dir safename
           in find (path_exists w)
                [arch_potential_file0,
                 arch_potential_file0 @ ''.zip'',
                 str_replace arch_potential_file0 ''.SAFE'' ''.zip''] \<noteq> None))"

section \<open>download.py: the download executor\<close>

text \<open>
  \<open>time.time()\<close> reads the timer; \<open>shutil.move\<close> and \<open>os.chmod\<close> answer \<open>None\<close>
  when they raise.
\<close>

definition time_time :: "env \<Rightarrow> world \<Rightarrow> real \<times> world" where
  "time_time e w = (timer e (time_reads w), w\<lparr>time_reads := Suc (time_reads w)\<rparr>)"

definition shutil_move :: "env \<Rightarrow> world \<Rightarrow> path \<Rightarrow> path \<Rightarrow> world option" where
  "shutil_move e w src dst =
     (case map_of (fs w) src of
        None \<Rightarrow> None
      | Some f \<Rightarrow>
          if move_denied e src dst then None
          else Some (w\<lparr>fs := AList.update dst f (AList.delete src (fs w))\<rparr>))"

definition os_chmod :: "env \<Rightarrow> world \<Rightarrow> path \<Rightarrow> nat \<Rightarrow> world option" where
  "os_chmod e w p m =
     (case map_of (fs w) p of
        None \<Rightarrow> None
      | Some f \<Rightarrow>
          if chmod_denied e p then None
          else Some (w\<lparr>fs := AList.update p (f\<lparr>mode := m\<rparr>) (fs w)\<rparr>))"

text \<open>\<open>response.ok\<close>: \<open>raise_for_status\<close> would not raise.\<close>

definition ok :: "response \<Rightarrow> bool" where
  "ok r = (\<not> (400 \<le> status_code r \<and> status_code r < 600))"

text \<open>
  \<open>int(int(content_length) / 1000 / 1000)\<close>: the header in whole megabytes, truncated
  towards zero.
\<close>

definition whole_megabytes :: "int \<Rightarrow> int" where
  "whole_megabytes n = (if 0 \<le> n then n div 1000000 else - ((- n) div 1000000))"

definition set_content :: "world \<Rightarrow> path \<Rightarrow> string \<Rightarrow> world" where
  "set_content w p s =
     w\<lparr>fs := AList.map_entry p (\<lambda>f. f\<lparr>content := s\<rparr>) (fs w)\<rparr>"

text \<open>
  The \<open>try\<close> block of the executor: open the temporary file for writing, send the GET
  (logged in \<open>gets\<close> with its Authorization header; the answer to the \<open>k\<close>-th GET of a
  run is \<open>endpoint e k\<close>), and stream the body when \<open>response.ok\<close>. It yields
  \<open>status\<close>, \<open>status_meaning\<close> and \<open>total_length\<close>. The chunks of a response are
  those that arrive before the stream ends, and a \<open>StreamException\<close> stands for any
  exception of the streaming loop other than ChunkedEncodingError, a failing write
  included. \<open>total_length\<close> is only read when \<open>status = 200\<close>, which needs
  \<open>response.ok\<close>; where Python leaves it unassigned it is 0 here.
\<close>

definition request_and_stream ::
  "env \<Rightarrow> string \<Rightarrow> string \<Rightarrow> path \<Rightarrow> world \<Rightarrow> (int \<times> string \<times> int) \<times> world" where
  "request_and_stream e url headers output_filepath_tmp w =
     (case write_file e w output_filepath_tmp [] of
        Inl msg \<Rightarrow> ((- 1, ''RequestError: '' @ msg, 0), w)
      | Inr w1 \<Rightarrow>
          (let w2 = w1\<lparr>gets := gets w1 @ [(url, headers)]\<rparr>
           in case endpoint e (length (gets w1)) of
                GetRaises msg \<Rightarrow> ((- 1, ''RequestError: '' @ msg, 0), w2)
              | GetResponse r \<Rightarrow>
                  if ok r
                  then (case content_length r of
                          NotInt msg \<Rightarrow> ((- 1, ''RequestError: '' @ msg, 0), w2)
                        | Absent \<Rightarrow>
                            (case stream_end r of
                               Complete \<Rightarrow> (status_code r, reason r, whole_megabytes 0)
                             | ChunkedEncodingError \<Rightarrow>
                                 (- 1, ''ChunkedEncodingError'', whole_megabytes 0)
                             | StreamException msg \<Rightarrow>
                                 (- 1, ''StreamError: '' @ msg, whole_megabytes 0),
                             set_content w2 output_filepath_tmp (concat (chunks r)))
                        | IsInt n \<Rightarrow>
                            (case stream_end r of
                               Complete \<Rightarrow> (status_code r, reason r, whole_megabytes n)
                             | ChunkedEncodingError \<Rightarrow>
                                 (- 1, ''ChunkedEncodingError'', whole_megabytes n)
                             | StreamException msg \<Rightarrow>
                                 (- 1, ''StreamError: '' @ msg, whole_megabytes n),
                             set_content w2 output_filepath_tmp (concat (chunks r))))
                  else ((status_code r, reason r, 0), w2)))"

datatype speed = NaN | Speed real

type_synonym download_result = "speed \<times> string \<times> string \<times> path option"

text \<open>
  \<open>CDS_Odata_download_one_product_v2\<close> returns
  \<open>(speed, status_meaning, safename_base, semaphore_token_file)\<close>. The configuration is
  taken as loaded and the staging directory as present.
\<close>

definition CDS_Odata_download_one_product_v2 ::
  "env \<Rightarrow> conf \<Rightarrow> string \<Rightarrow> string \<Rightarrow> path \<Rightarrow> path option \<Rightarrow> world
     \<Rightarrow> download_result \<times> world" where
  "CDS_Odata_download_one_product_v2 e cf headers url output_filepath semaphore_token_file w =
     (let (t0, w0) = time_time e w;
          output_filepath_tmp = join (pre_spool cf) (basename output_filepath @ ''.tmp'');
          safename_base = str_replace (basename output_filepath) ''.zip'' [];
          ((status, status_meaning, total_length), w1) =
             request_and_stream e url headers output_filepath_tmp w0;
          w2 = (if (status \<noteq> 200 \<or> status = - 1) \<and> path_exists w1 output_filepath_tmp
                then (case os_remove e w1 output_filepath_tmp of
                        None \<Rightarrow> w1
                      | Some w' \<Rightarrow> w')
                else w1);
          (t1, w3) = time_time e w2;
          elapsed_time = t1 - t0
      in if status = 200
         then (let speed = (if elapsed_time > 0
                            then Speed (real_of_int total_length / elapsed_time)
                            else Speed 0)
               in case shutil_move e w3 output_filepath_tmp output_filepath of
                    None \<Rightarrow>
                      ((speed, ''MoveFileError'', safename_base, semaphore_token_file), w3)
                  | Some w4 \<Rightarrow>
                      (case os_chmod e w4 output_filepath 509 of
                         None \<Rightarrow>
                           ((speed, ''MoveFileError'', safename_base, semaphore_token_file),
                            w4)
                       | Some w5 \<Rightarrow>
                           ((speed, status_meaning, safename_base, semaphore_token_file),
                            w5)))
         else ((NaN, status_meaning, safename_base, semaphore_token_file), w3))"

section \<open>download.py: tables, counters and the absent module\<close>

text \<open>
  A row of the table \<open>df2\<close> (columns \<open>safe\<close>, \<open>status\<close>, \<open>id\<close>, \<open>urls\<close>,
  \<open>outputpath\<close>) and a row of the table of granted downloads that
  \<open>get_sessions_download_available\<close> returns. The status is the number the code writes:
  0 not treated, 1 successful download, -1 error.
\<close>

record product_row =
  safe :: string
  status :: int
  ident :: string
  urls :: string
  outputpath :: path

record grant =
  grant_safe :: string
  header :: string
  url :: string
  output_path :: path
  token_semaphore :: "path option"
  session_semaphore :: path

text \<open>What \<open>future.result()\<close> does: it raises, or returns the tuple of the executor.\<close>

datatype future_result = Raised | Returned download_result

text \<open>
  The module \<open>cdsodatacli.session\<close> is not among the sources: its constant
  \<open>MAX_SESSION_PER_ACCOUNT\<close> and its functions \<open>remove_semaphore_session_file\<close> and
  \<open>get_sessions_download_available\<close> are parameters, and so is \<open>WhichArchiveDir\<close>
  (see above); removing session semaphores changes the file system and nothing else.
  \<open>as_completed\<close> stands for the thread pool of one round: for the batch of
  round \<open>k\<close> it lists the grants in the order in which their workers finish, each with
  what its future yields, and gives the world the workers leave behind.
\<close>

record deps =
  MAX_SESSION_PER_ACCOUNT :: nat
  remove_semaphore_session_file ::
    "path \<Rightarrow> string option \<Rightarrow> string option \<Rightarrow> (path \<times> file_node) list
       \<Rightarrow> (path \<times> file_node) list"
  get_sessions_download_available ::
    "conf \<Rightarrow> product_row list \<Rightarrow> string list \<Rightarrow> string \<Rightarrow> world \<Rightarrow> grant list \<times> world"
  as_completed :: "nat \<Rightarrow> grant list \<Rightarrow> world \<Rightarrow> (grant \<times> future_result) list \<times> world"
  WhichArchiveDir :: "string \<Rightarrow> path option"

text \<open>A \<open>defaultdict(int)\<close> in insertion order, and \<open>d[k] += 1\<close>.\<close>

type_synonym counter = "(string \<times> nat) list"

definition incr :: "counter \<Rightarrow> string \<Rightarrow> counter" where
  "incr d k = AList.update k (case map_of d k of None \<Rightarrow> 1 | Some n \<Rightarrow> n + 1) d"

text \<open>\<open>df2.loc[(df2["safe"] == name), "status"] = v\<close>\<close>

definition set_status :: "string \<Rightarrow> int \<Rightarrow> product_row list \<Rightarrow> product_row list" where
  "set_status name v rows = map (\<lambda>r. if safe r = name then r\<lparr>status := v\<rparr> else r) rows"

text \<open>
  \<open>filter_product_already_present\<close>, one row after the other; \<open>df\<close> has the columns
  \<open>urls\<close> and \<open>outputpath\<close> empty.
\<close>

fun filter_product_already_present ::
  "env \<Rightarrow> deps \<Rightarrow> conf \<Rightarrow> path \<Rightarrow> bool \<Rightarrow> product_row list
     \<Rightarrow> counter \<Rightarrow> product_row list \<Rightarrow> world
     \<Rightarrow> exc + (product_row list \<times> counter \<times> world)" where
  "filter_product_already_present e dp cf outputdir force_download [] cpt df_todownload w =
     Inr (df_todownload, cpt, w)"
| "filter_product_already_present e dp cf outputdir force_download (r # df) cpt df_todownload w =
     (let keep = df_todownload @
                   [r\<lparr>urls := URL_download cf (ident r),
                      outputpath := join outputdir (safe r @ ''.zip'')\<rparr>]
      in if check_safe_in_archive (WhichArchiveDir dp) (safe r) w
         then filter_product_already_present e dp cf outputdir force_download df
                (incr cpt ''archived_product'')
                (if force_download then keep else df_todownload) w
         else if check_safe_in_spool cf (safe r) w
         then filter_product_already_present e dp cf outputdir force_download df
                (incr cpt ''in_spool_product'')
                (if force_download then keep else df_todownload) w
         else (case check_safe_in_outputdir e outputdir (safe r) w of
                 (Inl x, w') \<Rightarrow> Inl x
               | (Inr True, w') \<Rightarrow>
                   filter_product_already_present e dp cf outputdir force_download df
                     (incr cpt ''in_outdir_product'')
                     (if force_download then keep else df_todownload) w'
               | (Inr False, w') \<Rightarrow>
                   filter_product_already_present e dp cf outputdir force_download df
                     (incr cpt ''product_absent_from_local_disks'') keep w'))"

section \<open>download.py: the sequential downloader\<close>

text \<open>
  \<open>open(path).readlines()[0]\<close>: the first line of the file with its line break, an
  OSError when the file is missing, an IndexError when it is empty.
\<close>

definition first_line :: "string \<Rightarrow> string" where
  "first_line s =
     takeWhile (\<lambda>c. c \<noteq> CHR 0x0A) s @ (if CHR 0x0A \<in> set s then [CHR 0x0A] else [])"

definition read_first_line :: "world \<Rightarrow> path \<Rightarrow> exc + string" where
  "read_first_line w p =
     (case map_of (fs w) p of
        None \<Rightarrow> Inl OSError
      | Some f \<Rightarrow> if content f = [] then Inl IndexError else Inr (first_line (content f)))"

text \<open>\<open>"Bearer %s" % access_token\<close>; Python prints \<open>None\<close> as \<open>None\<close>.\<close>

definition bearer :: "string option \<Rightarrow> string" where
  "bearer access_token =
     ''Bearer '' @ (case access_token of None \<Rightarrow> ''None'' | Some t \<Rightarrow> t)"

text \<open>
  The start of \<open>download_list_product\<close>, up to the test \<open>access_token is not None\<close>:
  it yields \<open>access_token\<close>, \<open>date_generation_access_token\<close> and
  \<open>path_semphore_token\<close>.
\<close>

definition initial_token ::
  "env \<Rightarrow> conf \<Rightarrow> string option \<Rightarrow> string option \<Rightarrow> world
     \<Rightarrow> (exc + string option \<times> datetime option \<times> path option) \<times> world" where
  "initial_token e cf specific_account specific_passwd w =
     (let (lst_usable_tokens, w1) = get_list_of_exising_token e (token_directory cf) None w
      in if lst_usable_tokens = []
         then (case get_bearer_access_token e cf specific_account specific_passwd
                      ''logins'' w1 of
                 (Inl x, w2) \<Rightarrow> (Inl x, w2)
               | (Inr (access_token, date_generation_access_token, login,
                       path_semphore_token), w2) \<Rightarrow>
                   (Inr (access_token, date_generation_access_token, path_semphore_token),
                    w2))
         else (let (path_semphore_token, w2) = random_choice e w1 lst_usable_tokens
               in case index_opt (split_on CHR ''_'' (basename path_semphore_token)) 4 of
                    None \<Rightarrow> (Inl IndexError, w2)
                  | Some d \<Rightarrow>
                      (case strptime e (str_replace d ''.txt'' []) of
                         None \<Rightarrow> (Inl ValueError, w2)
                       | Some date_generation_access_token \<Rightarrow>
                           (case read_first_line w2 path_semphore_token of
                              Inl x \<Rightarrow> (Inl x, w2)
                            | Inr access_token \<Rightarrow>
                                (Inr (Some access_token, Some date_generation_access_token,
                                      Some path_semphore_token), w2)))))"

text \<open>
  The body of the loop for a product that is neither in the archive nor in the spool, from
  the age test on. It yields the variables that the next turn reads (\<open>headers\<close>,
  \<open>date_generation_access_token\<close>, \<open>specific_account\<close>, \<open>path_semphore_token\<close>) and
  the speed and outcome of the download. A date that is \<open>None\<close> (after an acquisition
  that failed) raises: TypeError in the subtraction, AttributeError in
  \<open>remove_semaphore_token_file\<close>.
\<close>

definition download_absent_product ::
  "env \<Rightarrow> conf \<Rightarrow> deps \<Rightarrow> path \<Rightarrow> string \<Rightarrow> string \<Rightarrow> string \<Rightarrow> datetime option
     \<Rightarrow> string option \<Rightarrow> path option \<Rightarrow> world
     \<Rightarrow> (exc + (string \<times> datetime option \<times> string option \<times> path option)
               \<times> speed \<times> string) \<times> world" where
  "download_absent_product e cf dp outputdir id_product safename_product headers
       date_generation_access_token specific_account path_semphore_token w =
     (case date_generation_access_token of
        None \<Rightarrow> (Inl TypeError, snd (today e w))
      | Some issued \<Rightarrow>
          (let (now, w1) = today e w;
               renewed =
                 (if total_seconds (now - issued) \<ge> real_of_int MAX_VALIDITY_ACCESS_TOKEN
                  then (case get_bearer_access_token e cf specific_account None ''logins'' w1 of
                          (Inl x, w2) \<Rightarrow> (Inl x, w2)
                        | (Inr (access_token, new_date, login, new_path), w2) \<Rightarrow>
                            (Inr (bearer access_token, new_date, login, new_path), w2))
                  else (Inr (headers, date_generation_access_token, specific_account,
                             path_semphore_token), w1))
           in case renewed of
                (Inl x, w2) \<Rightarrow> (Inl x, w2)
              | (Inr (headers', date', account', path'), w2) \<Rightarrow>
                  (let ((speed, status_meaning, safename_base, path''), w3) =
                         CDS_Odata_download_one_product_v2 e cf headers'
                           (URL_download cf id_product)
                           (join outputdir (safename_product @ ''.zip'')) path' w2
                   in case date' of
                        None \<Rightarrow> (Inl AttributeError, w3)
                      | Some d \<Rightarrow>
                          (let w4 = remove_semaphore_token_file e (token_directory cf)
                                      (case account' of None \<Rightarrow> ''None'' | Some a \<Rightarrow> a)
                                      d w3;
                               w5 = w4\<lparr>fs := remove_semaphore_session_file dp
                                      (active_session_directory cf) (Some safename_base)
                                      account' (fs w4)\<rparr>
                           in (Inr ((headers', date', account', path''), speed,
                                    status_meaning), w5)))))"

text \<open>The \<open>for\<close> loop over the products, given as pairs of id and name.\<close>

fun download_loop ::
  "env \<Rightarrow> conf \<Rightarrow> deps \<Rightarrow> path \<Rightarrow> (string \<times> string) list \<Rightarrow> string \<Rightarrow> datetime option
     \<Rightarrow> string option \<Rightarrow> path option \<Rightarrow> counter \<Rightarrow> speed list \<Rightarrow> world
     \<Rightarrow> (exc + counter \<times> speed list) \<times> world" where
  "download_loop e cf dp outputdir [] headers date_generation_access_token specific_account
       path_semphore_token cpt all_speeds w = (Inr (cpt, all_speeds), w)"
| "download_loop e cf dp outputdir ((id_product, safename_product) # rest) headers
       date_generation_access_token specific_account path_semphore_token cpt all_speeds w =
     (if check_safe_in_archive (WhichArchiveDir dp) safename_product w
      then download_loop e cf dp outputdir rest headers date_generation_access_token
             specific_account path_semphore_token (incr cpt ''archived_product'')
             all_speeds w
      else if check_safe_in_spool cf safename_product w
      then download_loop e cf dp outputdir rest headers date_generation_access_token
             specific_account path_semphore_token (incr cpt ''in_spool_product'')
             all_speeds w
      else (case download_absent_product e cf dp outputdir id_product safename_product
                   headers date_generation_access_token specific_account
                   path_semphore_token w of
              (Inl x, w') \<Rightarrow> (Inl x, w')
            | (Inr ((headers', date', account', path'), speed, status_meaning), w') \<Rightarrow>
                download_loop e cf dp outputdir rest headers' date' account' path'
                  (incr (if status_meaning = ''OK''
                         then incr (incr cpt ''product_absent_from_local_disks'')
                                ''successful_download''
                         else incr cpt ''product_absent_from_local_disks'')
                     (''status_'' @ status_meaning))
                  (if status_meaning = ''OK'' then all_speeds @ [speed] else all_speeds)
                  w'))"

definition download_list_product ::
  "env \<Rightarrow> conf \<Rightarrow> deps \<Rightarrow> string list \<Rightarrow> string list \<Rightarrow> path \<Rightarrow> string option
     \<Rightarrow> string option \<Rightarrow> world \<Rightarrow> (exc + counter \<times> speed list) \<times> world" where
  "download_list_product e cf dp list_id list_safename outputdir specific_account
       specific_passwd w =
     (if length list_id \<noteq> length list_safename then (Inl AssertionError, w)
      else (case initial_token e cf specific_account specific_passwd w of
              (Inl x, w1) \<Rightarrow> (Inl x, w1)
            | (Inr (None, date_generation_access_token, path_semphore_token), w1) \<Rightarrow>
                (Inr ([(''products_in_initial_listing'', length list_id)], []), w1)
            | (Inr (Some access_token, date_generation_access_token, path_semphore_token),
               w1) \<Rightarrow>
                download_loop e cf dp outputdir (zip list_id list_safename)
                  (bearer (Some access_token)) date_generation_access_token
                  specific_account path_semphore_token
                  [(''products_in_initial_listing'', length list_id)] [] w1))"

section \<open>download.py: the scheduling loop\<close>

text \<open>The variables of the scheduling loop.\<close>

record loop_state =
  df2 :: "product_row list"
  blacklist :: "string list"
  cpt :: counter
  all_speeds :: "speed list"
  wld :: world

text \<open>
  The body of \<open>for future in as_completed(...)\<close>. \<open>harvest_try\<close> is the \<open>try\<close> block
  and answers \<open>None\<close> when it raises: the future raised, the token semaphore is
  \<open>None\<close>, its file name has fewer than five parts between underscores, or the date does
  not parse. All of these come before the first effect of the block. \<open>harvest_except\<close>
  is the handler.
\<close>

definition harvest_try ::
  "env \<Rightarrow> conf \<Rightarrow> deps \<Rightarrow> future_result \<Rightarrow> loop_state \<Rightarrow> counter
     \<Rightarrow> (loop_state \<times> counter) option" where
  "harvest_try e cf dp fut st errors_per_account =
     (case fut of
        Raised \<Rightarrow> None
      | Returned (speed, status_meaning, safename_base, semaphore_token_file) \<Rightarrow>
          (case semaphore_token_file of
             None \<Rightarrow> None
           | Some tokfile \<Rightarrow>
               (let parts = split_on CHR ''_'' (basename tokfile)
                in case index_opt parts 3 of
                     None \<Rightarrow> None
                   | Some login \<Rightarrow>
                       (case index_opt parts 4 of
                          None \<Rightarrow> None
                        | Some d \<Rightarrow>
                            (case strptime e (str_replace d ''.txt'' []) of
                               None \<Rightarrow> None
                             | Some date_generation_access_token \<Rightarrow>
                                 (let w1 = remove_semaphore_token_file e (token_directory cf)
                                             login date_generation_access_token (wld st);
                                      w2 = w1\<lparr>fs := remove_semaphore_session_file dp
                                             (active_session_directory cf)
                                             (Some safename_base) (Some login) (fs w1)\<rparr>
                                  in if status_meaning = ''OK''
                                     then Some
                                       (st\<lparr>df2 := set_status safename_base 1 (df2 st),
                                           all_speeds := all_speeds st @ [speed],
                                           cpt := incr (incr (cpt st) ''successful_download'')
                                                    (''status_'' @ status_meaning),
                                           wld := w2\<rparr>,
                                        errors_per_account)
                                     else Some
                                       (st\<lparr>df2 := set_status safename_base (- 1) (df2 st),
                                           cpt := incr (cpt st) (''status_'' @ status_meaning),
                                           wld := w2\<rparr>,
                                        incr errors_per_account login)))))))"

definition harvest_except :: "env \<Rightarrow> grant \<Rightarrow> loop_state \<Rightarrow> loop_state" where
  "harvest_except e g st =
     (let st1 = st\<lparr>df2 := set_status (grant_safe g) (- 1) (df2 st),
                   cpt := incr (cpt st) ''status_Exception''\<rparr>
      in if path_exists (wld st1) (session_semaphore g)
         then (case os_remove e (wld st1) (session_semaphore g) of
                 None \<Rightarrow> st1
               | Some w' \<Rightarrow> st1\<lparr>wld := w'\<rparr>)
         else st1)"

definition harvest ::
  "env \<Rightarrow> conf \<Rightarrow> deps \<Rightarrow> loop_state \<times> counter \<Rightarrow> grant \<times> future_result
     \<Rightarrow> loop_state \<times> counter" where
  "harvest e cf dp acc gf =
     (case harvest_try e cf dp (snd gf) (fst acc) (snd acc) of
        Some r \<Rightarrow> r
      | None \<Rightarrow> (harvest_except e (fst gf) (fst acc), snd acc))"

text \<open>
  The loop \<open>for acco in errors_per_account\<close> that ends a round.
\<close>

definition update_blacklist :: "deps \<Rightarrow> counter \<Rightarrow> string list \<Rightarrow> string list" where
  "update_blacklist dp errors_per_account bl =
     foldl (\<lambda>b acco. if the (map_of errors_per_account acco) \<ge> MAX_SESSION_PER_ACCOUNT dp
                      then b @ [acco] else b)
       bl (map fst errors_per_account)"

text \<open>
  One turn of the \<open>while\<close> loop, entered with an item still at status 0: it goes on
  (\<open>continue\<close>, or the end of the body), leaves by the \<open>break\<close>, or raises.
\<close>

datatype 'a step = Continue 'a | Break 'a | Fault exc

definition loop_round ::
  "env \<Rightarrow> conf \<Rightarrow> deps \<Rightarrow> string \<Rightarrow> nat \<Rightarrow> loop_state \<Rightarrow> loop_state step" where
  "loop_round e cf dp account_group while_loop st =
     (let subset_to_treat = filter (\<lambda>r. status r = 0) (df2 st);
          (dfproductDownloaddable, w1) =
             get_sessions_download_available dp cf subset_to_treat (blacklist st)
               account_group (wld st)
      in if length dfproductDownloaddable = 0
         then (case groups cf account_group of
                 None \<Rightarrow> Fault KeyError
               | Some accounts \<Rightarrow>
                   if length (blacklist st) \<ge> length accounts
                   then Break (st\<lparr>wld := w1\<rparr>)
                   else Continue (st\<lparr>wld := w1\<rparr>))
         else (let (completed, w2) = as_completed dp while_loop dfproductDownloaddable w1;
                   (st1, errors_per_account) =
                      foldl (harvest e cf dp) (st\<lparr>wld := w2\<rparr>, []) completed
               in Continue
                    (st1\<lparr>blacklist := update_blacklist dp errors_per_account (blacklist st1)\<rparr>)))"

text \<open>
  The \<open>while\<close> loop. Nothing bounds the number of its turns (an empty batch with an
  account left outside the blacklist sleeps and retries), so it runs on fuel: \<open>None\<close>
  means that the fuel did not suffice. How the loop was left is returned with the state.
\<close>

datatype loop_exit = Drained | AllBlacklisted

fun scheduling_loop ::
  "nat \<Rightarrow> env \<Rightarrow> conf \<Rightarrow> deps \<Rightarrow> string \<Rightarrow> nat \<Rightarrow> loop_state
     \<Rightarrow> (exc + loop_state \<times> loop_exit) option" where
  "scheduling_loop 0 e cf dp account_group while_loop st = None"
| "scheduling_loop (Suc fuel) e cf dp account_group while_loop st =
     (if \<not> list_ex (\<lambda>r. status r = 0) (df2 st) then Some (Inr (st, Drained))
      else (case loop_round e cf dp account_group (Suc while_loop) st of
              Fault x \<Rightarrow> Some (Inl x)
            | Break st' \<Rightarrow> Some (Inr (st', AllBlacklisted))
            | Continue st' \<Rightarrow>
                scheduling_loop fuel e cf dp account_group (Suc while_loop) st'))"

text \<open>The state after at most \<open>n\<close> further turns of the loop.\<close>

fun state_after ::
  "nat \<Rightarrow> env \<Rightarrow> conf \<Rightarrow> deps \<Rightarrow> string \<Rightarrow> nat \<Rightarrow> loop_state \<Rightarrow> loop_state" where
  "state_after 0 e cf dp account_group while_loop st = st"
| "state_after (Suc n) e cf dp account_group while_loop st =
     (if \<not> list_ex (\<lambda>r. status r = 0) (df2 st) then st
      else (case loop_round e cf dp account_group (Suc while_loop) st of
              Fault x \<Rightarrow> st
            | Break st' \<Rightarrow> st'
            | Continue st' \<Rightarrow> state_after n e cf dp account_group (Suc while_loop) st'))"

text \<open>
  \<open>download_list_product_multithread_v2\<close> returns \<open>df2\<close>; the world after the final
  sweep of the session semaphores is returned with it.
\<close>

definition download_list_product_multithread_v2 ::
  "nat \<Rightarrow> env \<Rightarrow> conf \<Rightarrow> deps \<Rightarrow> string list \<Rightarrow> string list \<Rightarrow> path \<Rightarrow> string \<Rightarrow> bool
     \<Rightarrow> world \<Rightarrow> (exc + product_row list \<times> world) option" where
  "download_list_product_multithread_v2 fuel e cf dp list_id list_safename outputdir
       account_group check_on_disk w =
     (if length list_id \<noteq> length list_safename then Some (Inl AssertionError)
      else (let df = map (\<lambda>(s, i). \<lparr>safe = s, status = 0, ident = i, urls = [],
                                     outputpath = []\<rparr>)
                       (zip list_safename list_id)
            in case filter_product_already_present e dp cf outputdir (\<not> check_on_disk) df
                      [(''products_in_initial_listing'', length list_id)] [] w of
                 Inl x \<Rightarrow> Some (Inl x)
               | Inr (df_todownload, cpt0, w0) \<Rightarrow>
                   (case scheduling_loop fuel e cf dp account_group 0
                           \<lparr>df2 = df_todownload, blacklist = [], cpt = cpt0,
                            all_speeds = [], wld = w0\<rparr> of
                      None \<Rightarrow> None
                    | Some (Inl x) \<Rightarrow> Some (Inl x)
                    | Some (Inr (st, how)) \<Rightarrow>
                        Some (Inr (df2 st,
                          (wld st)\<lparr>fs := remove_semaphore_session_file dp
                             (active_session_directory cf) None None (fs (wld st))\<rparr>)))))"

(*DEFS-END*)

section \<open>A small concrete environment\<close>

text \<open>
  The concrete runs below use an environment in which two instants of the time line are
  named by the lease format: microsecond \<open>0\<close> is \<open>20240101t000000\<close> and microsecond
  \<open>600000000\<close> (ten minutes later) is \<open>20240101t001000\<close>. The clock starts at 700
  seconds, the identity endpoint is unreachable, the random generator always draws 1, and
  the operating system refuses nothing.
\<close>

definition example_env :: env where
  "example_env =
     \<lparr>strftime = (\<lambda>d. if d = 0 then ''20240101t000000'' else ''20240101t001000''),
      strptime = (\<lambda>s. if s = ''20240101t000000'' then Some 0
                       else if s = ''20240101t001000'' then Some 600000000 else None),
      clock = (\<lambda>k. 700000000 + int k),
      timer = (\<lambda>k. real k),
      rng = (\<lambda>k. 1),
      identity = (\<lambda>k. PostRaises),
      endpoint = (\<lambda>k. GetRaises ''unreachable''),
      open_error = (\<lambda>p. None),
      remove_denied = (\<lambda>p. False),
      move_denied = (\<lambda>p q. False),
      chmod_denied = (\<lambda>p. False),
      zipfile_test = (\<lambda>p. ZipGood),
      create_mode = 420\<rparr>"

definition example_conf :: conf where
  "example_conf =
     \<lparr>URL_identity = ''https://identity'',
      URL_download = (\<lambda>i. ''https://download/'' @ i),
      token_directory = ''/tok'',
      active_session_directory = ''/ses'',
      pre_spool = ''/pre'',
      spool = ''/spool'',
      archive = ''/arch'',
      groups = (\<lambda>g. if g = ''logins''
                     then Some [(''alice'', ''pa''), (''bob'', ''pb'')] else None)\<rparr>"

definition example_world :: world where
  "example_world = \<lparr>fs = [], ticks = 0, time_reads = 0, draws = 0, posts = [], gets = []\<rparr>"

definition old_lease :: "path \<times> file_node" where
  "old_lease = (''/tok/CDSE_access_token_alice_20240101t000000.txt'',
                \<lparr>content = ''t0'', mode = 420\<rparr>)"

definition young_lease :: "path \<times> file_node" where
  "young_lease = (''/tok/CDSE_access_token_alice_20240101t001000.txt'',
                  \<lparr>content = ''t1'', mode = 420\<rparr>)"

definition respond :: "response \<Rightarrow> env" where
  "respond r = example_env\<lparr>endpoint := (\<lambda>k. GetResponse r)\<rparr>"




definition ok_broken :: response where
  "ok_broken =
     \<lparr>status_code = 200, reason = ''OK'', content_length = IsInt 3,
      chunks = [''ab''], stream_end = ChunkedEncodingError\<rparr>"

definition not_found :: response where
  "not_found =
     \<lparr>status_code = 404, reason = ''Not Found'', content_length = Absent,
      chunks = [], stream_end = Complete\<rparr>"


text \<open>
  A run of the scheduler with one account, \<open>alice\<close>, one session per account, and a
  session module that grants the first pending product to \<open>alice\<close> unless she is on the
  blacklist. In \<open>failing_deps\<close> every download ends with the outcome \<open>Not Found\<close>, in
  \<open>working_deps\<close> with \<open>OK\<close>.
\<close>

definition one_account_conf :: conf where
  "one_account_conf =
     example_conf\<lparr>groups := (\<lambda>g. if g = ''logins'' then Some [(''alice'', ''pa'')] else None)\<rparr>"

definition grant_alice :: "product_row \<Rightarrow> grant" where
  "grant_alice r =
     \<lparr>grant_safe = safe r, header = ''Bearer t'', url = urls r, output_path = outputpath r,
      token_semaphore = Some ''/tok/CDSE_access_token_alice_20240101t001000.txt'',
      session_semaphore = ''/ses/'' @ safe r\<rparr>"

definition pool_answers :: "speed \<Rightarrow> string \<Rightarrow> grant \<Rightarrow> grant \<times> future_result" where
  "pool_answers sp status_meaning g =
     (g, Returned (sp, status_meaning, str_replace (basename (output_path g)) ''.zip'' [],
                   token_semaphore g))"

definition failing_deps :: deps where
  "failing_deps =
     \<lparr>MAX_SESSION_PER_ACCOUNT = 1,
      remove_semaphore_session_file = (\<lambda>dir safename login files. files),
      get_sessions_download_available =
        (\<lambda>cf subset bl account_group w.
           (if ''alice'' \<in> set bl then [] else map grant_alice (take 1 subset), w)),
      as_completed = (\<lambda>k batch w. (map (pool_answers NaN ''Not Found'') batch, w)),
      WhichArchiveDir = (\<lambda>s. None)\<rparr>"

definition working_deps :: deps where
  "working_deps =
     failing_deps\<lparr>as_completed := (\<lambda>k batch w. (map (pool_answers (Speed 7) ''OK'') batch, w))\<rparr>"

definition two_products :: "product_row list" where
  "two_products =
     [\<lparr>safe = ''S1A'', status = 0, ident = ''id1'', urls = ''https://download/id1'',
       outputpath = ''/out/S1A.zip''\<rparr>,
      \<lparr>safe = ''S1B'', status = 0, ident = ''id2'', urls = ''https://download/id2'',
       outputpath = ''/out/S1B.zip''\<rparr>]"

text \<open>
  A world that holds the two leases of \<open>alice\<close>, and an identity endpoint that hands
  out the token \<open>fresh\<close>.
\<close>

definition lease_world :: world where
  "lease_world = example_world\<lparr>fs := [old_lease, young_lease]\<rparr>"

definition minting_env :: env where
  "minting_env =
     example_env\<lparr>identity :=
       (\<lambda>k. PostResponse 200 (JsonObject [(''access_token'', ''fresh'')]))\<rparr>"

(*EXAMPLES-END*)

section \<open>Token leases: release\<close>

text \<open>
  Claim C5. Releasing a token lease with \<open>remove_semaphore_token_file\<close> deletes the
  lease file only when \<open>now - issued_at\<close> has reached the validity window of 600 seconds,
  and is otherwise a no-op: with \<open>p\<close> the lease path built from the login and the date,
  a lease younger than 600 seconds leaves the file system as it was; no path other than
  \<open>p\<close> is ever touched; the file system changes only when the age is at least 600
  seconds, and then \<open>p\<close> is gone; an expired lease that exists and that the system lets
  go is removed. The function never fails: a missing file leaves the world as it was, an
  OSError of the removal is swallowed, and releasing again after the file is gone changes
  nothing.
\<close>

theorem remove_semaphore_token_file_release:
  "let p = join token_dir (token_file_name e login d);
       w' = remove_semaphore_token_file e token_dir login d w;
       age = total_seconds (clock e (ticks w) - d)
   in (age < 600 \<longrightarrow> fs w' = fs w)
    \<and> (map_of (fs w) p = None \<longrightarrow> w' = w)
    \<and> (remove_denied e p \<longrightarrow> fs w' = fs w)
    \<and> (\<forall>q. q \<noteq> p \<longrightarrow> map_of (fs w') q = map_of (fs w) q)
    \<and> (fs w' \<noteq> fs w \<longrightarrow> 600 \<le> age \<and> map_of (fs w) p \<noteq> None \<and> map_of (fs w') p = None)
    \<and> (map_of (fs w) p \<noteq> None \<and> 600 \<le> age \<and> \<not> remove_denied e p
          \<longrightarrow> map_of (fs w') p = None)
    \<and> (map_of (fs w') p = None
          \<longrightarrow> remove_semaphore_token_file e token_dir login d w' = w')"
  by (auto simp: Let_def remove_semaphore_token_file_def path_exists_def today_def
      os_remove_def MAX_VALIDITY_ACCESS_TOKEN_def AList.delete_conv' split: option.splits)

text \<open>
  At 700 seconds on the clock, the lease issued at second 0 is released and removed, the
  lease issued at second 600 is released and kept.
\<close>

theorem remove_semaphore_token_file_release_witness:
  "600 \<le> total_seconds (clock example_env 0 - 0)
   \<and> fs (remove_semaphore_token_file example_env ''/tok'' ''alice'' 0
            (example_world\<lparr>fs := [old_lease, young_lease]\<rparr>)) = [young_lease]
   \<and> total_seconds (clock example_env 0 - 600000000) < 600
   \<and> fs (remove_semaphore_token_file example_env ''/tok'' ''alice'' 600000000
            (example_world\<lparr>fs := [old_lease, young_lease]\<rparr>)) = [old_lease, young_lease]"
  using remove_semaphore_token_file_release
          [of "''/tok''" example_env "''alice''" 0 "example_world\<lparr>fs := [old_lease, young_lease]\<rparr>"]
        remove_semaphore_token_file_release
          [of "''/tok''" example_env "''alice''" 600000000
              "example_world\<lparr>fs := [old_lease, young_lease]\<rparr>"]
  by (simp add: Let_def remove_semaphore_token_file_def path_exists_def today_def
      os_remove_def MAX_VALIDITY_ACCESS_TOKEN_def total_seconds_def join_def token_file_name_def
      startswith_def endswith_def example_env_def example_world_def old_lease_def
      young_lease_def AList.delete_eq)

section \<open>Token acquisition\<close>

lemma nth_logins:
  "k < Suc (length rest) \<Longrightarrow> (a # map fst rest) ! k = fst (((a, b) # rest) ! k)"
  by (cases k) auto

text \<open>
  Claim C10. When \<open>get_bearer_access_token\<close> is called with no account and no password
  over a non-empty account group, the login it submits to the identity endpoint is the
  random draw from the group's logins, and the password it submits is the one of the first
  account of the group in key order. Hence there is a group of two accounts with distinct
  logins and distinct passwords for which the submitted pair of login and password is the
  pair of no configured account.
\<close>

theorem get_bearer_access_token_random_login_first_password:
  assumes "groups cf account_group = Some accounts" and "accounts \<noteq> []"
  shows "posts (snd (get_bearer_access_token e cf None None account_group w))
           = posts w @ [\<lparr>client_id = ''cdse-public'',
                username = fst (accounts ! (rng e (draws w) mod length accounts)),
                password = snd (hd accounts), grant_type = ''password''\<rparr>]
       \<and> (\<exists>e' cf' w' accounts'.
            groups cf' ''logins'' = Some accounts' \<and> 2 \<le> length accounts'
            \<and> distinct (map fst accounts') \<and> distinct (map snd accounts')
            \<and> (username (last (posts (snd
                   (get_bearer_access_token e' cf' None None ''logins'' w')))),
                password (last (posts (snd
                   (get_bearer_access_token e' cf' None None ''logins'' w')))))
                 \<notin> set accounts')"
proof
  show "posts (snd (get_bearer_access_token e cf None None account_group w))
           = posts w @ [\<lparr>client_id = ''cdse-public'',
                username = fst (accounts ! (rng e (draws w) mod length accounts)),
                password = snd (hd accounts), grant_type = ''password''\<rparr>]"
    using assms
    by (cases accounts)
       (auto simp: get_bearer_access_token_def random_choice_def today_def Let_def
          write_token_semphore_file_def write_file_def nth_logins
          split: option.splits post_result.splits json_body.splits prod.splits list.splits)
next
  have "groups example_conf ''logins'' = Some [(''alice'', ''pa''), (''bob'', ''pb'')]"
    by (simp add: example_conf_def)
  moreover have "posts (snd (get_bearer_access_token example_env example_conf None None
                   ''logins'' example_world))
      = [\<lparr>client_id = ''cdse-public'', username = ''bob'', password = ''pa'',
          grant_type = ''password''\<rparr>]"
    by (simp add: get_bearer_access_token_def random_choice_def today_def Let_def all_None_def
         example_env_def example_conf_def example_world_def)
  ultimately show "\<exists>e' cf' w' accounts'.
            groups cf' ''logins'' = Some accounts' \<and> 2 \<le> length accounts'
            \<and> distinct (map fst accounts') \<and> distinct (map snd accounts')
            \<and> (username (last (posts (snd
                   (get_bearer_access_token e' cf' None None ''logins'' w')))),
                password (last (posts (snd
                   (get_bearer_access_token e' cf' None None ''logins'' w')))))
                 \<notin> set accounts'"
    by (intro exI [of _ example_env] exI [of _ example_conf] exI [of _ example_world]
          exI [of _ "[(''alice'', ''pa''), (''bob'', ''pb'')]"]) simp
qed

text \<open>
  With the draw 1 over the group \<open>alice, bob\<close>, the request carries the login \<open>bob\<close>
  and the password of \<open>alice\<close>.
\<close>

theorem get_bearer_access_token_random_login_first_password_witness:
  "groups example_conf ''logins'' = Some [(''alice'', ''pa''), (''bob'', ''pb'')]
   \<and> posts (snd (get_bearer_access_token example_env example_conf None None ''logins''
                   example_world))
     = [\<lparr>client_id = ''cdse-public'', username = ''bob'', password = ''pa'',
         grant_type = ''password''\<rparr>]"
proof -
  have g: "groups example_conf ''logins'' = Some [(''alice'', ''pa''), (''bob'', ''pb'')]"
    by (simp add: example_conf_def)
  have n: "[(''alice'', ''pa''), (''bob'', ''pb'')] \<noteq> ([] :: (string \<times> string) list)"
    by simp
  show ?thesis
    using get_bearer_access_token_random_login_first_password
            [OF g n, of example_env example_world] g
    by (simp add: example_env_def example_world_def)
qed

text \<open>
  Claim C6, as the spec states it: when the identity endpoint returns malformed JSON, or
  rejects the request with a non-2xx status, \<open>get_bearer_access_token\<close> fails, creates no
  token lease and writes no file. The code leaves the judgement of the status to
  \<open>raise_for_status\<close>, which raises for the codes 400 to 599 only. A response with another
  non-2xx code, here 300, whose body is a JSON object with an \<open>access_token\<close>, is taken
  as a success: the token is returned and its lease file is written.
\<close>

theorem get_bearer_access_token_non_2xx_counterexample:
  "get_bearer_access_token
     (example_env\<lparr>identity :=
        (\<lambda>k. PostResponse 300 (JsonObject [(''access_token'', ''tok'')]))\<rparr>)
     example_conf (Some ''alice'') None ''logins'' example_world
   = (Inr (Some ''tok'', Some 700000000, Some ''alice'',
           Some ''/tok/CDSE_access_token_alice_20240101t001000.txt''),
      example_world\<lparr>fs := [(''/tok/CDSE_access_token_alice_20240101t001000.txt'',
                             \<lparr>content = ''tok'', mode = 420\<rparr>)],
        ticks := 1,
        posts := [\<lparr>client_id = ''cdse-public'', username = ''alice'', password = ''pa'',
                   grant_type = ''password''\<rparr>]\<rparr>)"
  by (simp add: get_bearer_access_token_def random_choice_def today_def Let_def all_None_def
       write_token_semphore_file_def write_file_def join_def token_file_name_def
       startswith_def endswith_def example_env_def example_conf_def example_world_def)

text \<open>
  Claim C6, amended: when the identity endpoint cannot be reached, or answers with a status
  code from 400 to 599, or answers with a body that is not well-formed JSON (whatever the
  status), \<open>get_bearer_access_token\<close> fails: it returns \<open>(None, None, None, None)\<close>, or
  has raised KeyError for a missing account group before any request; no token lease is
  created and the file system is left as it was.
\<close>

theorem get_bearer_access_token_rejected:
  assumes "case identity e (length (posts w)) of
             PostRaises \<Rightarrow> True
           | PostResponse code body \<Rightarrow> body = Malformed \<or> (400 \<le> code \<and> code < 600)"
  shows "(fst (get_bearer_access_token e cf specific_account passwd account_group w)
            = Inr all_None
          \<or> fst (get_bearer_access_token e cf specific_account passwd account_group w)
            = Inl KeyError)
       \<and> fs (snd (get_bearer_access_token e cf specific_account passwd account_group w))
           = fs w"
  using assms
  by (auto simp: get_bearer_access_token_def random_choice_def today_def Let_def
        split: option.splits post_result.splits json_body.splits prod.splits list.splits)

text \<open>
  A body that is not JSON, sent with status 200, and a well-formed body sent with status
  401: both acquisitions return four times \<open>None\<close> and leave the file system empty.
\<close>

theorem get_bearer_access_token_rejected_witness:
  "get_bearer_access_token (example_env\<lparr>identity := (\<lambda>k. PostResponse 200 Malformed)\<rparr>)
       example_conf (Some ''alice'') None ''logins'' example_world
     = (Inr all_None,
        example_world\<lparr>ticks := 1,
          posts := [\<lparr>client_id = ''cdse-public'', username = ''alice'', password = ''pa'',
                     grant_type = ''password''\<rparr>]\<rparr>)
   \<and> fst (get_bearer_access_token
       (example_env\<lparr>identity :=
          (\<lambda>k. PostResponse 401 (JsonObject [(''access_token'', ''tok'')]))\<rparr>)
       example_conf (Some ''alice'') None ''logins'' example_world) = Inr all_None
   \<and> fs (snd (get_bearer_access_token
       (example_env\<lparr>identity :=
          (\<lambda>k. PostResponse 401 (JsonObject [(''access_token'', ''tok'')]))\<rparr>)
       example_conf (Some ''alice'') None ''logins'' example_world)) = []"
  using get_bearer_access_token_rejected
          [of "example_env\<lparr>identity := (\<lambda>k. PostResponse 200 Malformed)\<rparr>"
              example_world example_conf "Some ''alice''" None "''logins''"]
        get_bearer_access_token_rejected
          [of "example_env\<lparr>identity :=
                 (\<lambda>k. PostResponse 401 (JsonObject [(''access_token'', ''tok'')]))\<rparr>"
              example_world example_conf "Some ''alice''" None "''logins''"]
  by (simp add: get_bearer_access_token_def random_choice_def today_def Let_def all_None_def
       example_env_def example_conf_def example_world_def)

section \<open>Presence in the output directory\<close>





section \<open>The download executor\<close>

lemma basename_no_slash: "CHR ''/'' \<notin> set (basename p)"
  by (auto simp: basename_def dest: set_takeWhileD)

lemma takeWhile_rev_no_slash:
  assumes "CHR ''/'' \<notin> set b"
  shows "takeWhile (\<lambda>c. c \<noteq> CHR ''/'') (rev b @ ys)
           = rev b @ takeWhile (\<lambda>c. c \<noteq> CHR ''/'') ys"
proof (rule takeWhile_append2)
  fix x assume "x \<in> set (rev b)"
  with assms show "x \<noteq> CHR ''/''" by auto
qed

lemma basename_plain:
  assumes "CHR ''/'' \<notin> set b"
  shows "basename b = b"
proof -
  have "takeWhile (\<lambda>c. c \<noteq> CHR ''/'') (rev b) = rev b"
    using assms by (auto simp: takeWhile_eq_all_conv)
  then show ?thesis unfolding basename_def by (simp only: rev_rev_ident)
qed

lemma basename_append_slash: "CHR ''/'' \<notin> set b \<Longrightarrow> basename (x @ CHR ''/'' # b) = b"
  using takeWhile_rev_no_slash [of b "CHR ''/'' # rev x"] by (simp add: basename_def)

lemma basename_join:
  assumes "CHR ''/'' \<notin> set b"
  shows "basename (join d b) = b"
proof (cases "d = [] \<or> endswith d ''/''")
  case False
  then show ?thesis
    using assms basename_append_slash [of b d]
    by (auto simp: join_def startswith_def basename_plain)
next
  case True
  show ?thesis
  proof (cases "d = []")
    case True
    then show ?thesis using assms by (auto simp: join_def startswith_def basename_plain)
  next
    case False
    with True have sl: "endswith d ''/''" by simp
    then have "d = take (length d - 1) d @ ''/''"
      by (metis One_nat_def append_take_drop_id endswith_def length_Cons list.size(3))
    then obtain x where "d = x @ ''/''" ..
    then show ?thesis
      using assms basename_append_slash [of b x] sl
      by (auto simp: join_def startswith_def basename_plain)
  qed
qed

text \<open>The temporary path is never the final path: their file names differ.\<close>

lemma tmp_neq: "join d (basename p @ ''.tmp'') \<noteq> p"
proof
  assume eq: "join d (basename p @ ''.tmp'') = p"
  have "CHR ''/'' \<notin> set (basename p @ ''.tmp'')"
    using basename_no_slash [of p] by simp
  then have "basename (join d (basename p @ ''.tmp'')) = basename p @ ''.tmp''"
    by (rule basename_join)
  with eq have "basename p = basename p @ ''.tmp''" by simp
  then show False by simp
qed

lemmas fs_simps = AList.update_conv' AList.delete_conv' AList.map_of_map_entry

lemmas exec_defs = CDS_Odata_download_one_product_v2_def request_and_stream_def
  time_time_def write_file_def set_content_def os_remove_def shutil_move_def os_chmod_def
  path_exists_def ok_def Let_def

lemmas example_defs = example_env_def example_conf_def example_world_def
  join_def basename_def str_replace_def startswith_def endswith_def


lemma run_ok_broken:
  "CDS_Odata_download_one_product_v2 (respond ok_broken) example_conf ''Bearer t''
      ''https://download/1'' ''/out/S1A.zip'' (Some ''/tok/lease.txt'') example_world
   = ((NaN, ''ChunkedEncodingError'', ''S1A'', Some ''/tok/lease.txt''),
      example_world\<lparr>time_reads := 2, gets := [(''https://download/1'', ''Bearer t'')]\<rparr>)"
  by (simp add: exec_defs example_defs respond_def ok_broken_def AList.delete_eq
       whole_megabytes_def)



lemma run_not_found:
  "CDS_Odata_download_one_product_v2 (respond not_found) example_conf ''Bearer t''
      ''https://download/1'' ''/out/S1A.zip'' (Some ''/tok/lease.txt'') example_world
   = ((NaN, ''Not Found'', ''S1A'', Some ''/tok/lease.txt''),
      example_world\<lparr>time_reads := 2, gets := [(''https://download/1'', ''Bearer t'')]\<rparr>)"
  by (simp add: exec_defs example_defs respond_def not_found_def AList.delete_eq
       whole_megabytes_def)







text \<open>
  Claim C7, as the spec states it: on a non-2xx status or an exception before or during
  streaming, the temporary file is deleted if present. The deletion is inside
  \<open>try: os.remove(...) except OSError: pass\<close>: after a 404 answer, with a system that
  refuses the removal, the executor returns the outcome \<open>Not Found\<close> and the empty
  temporary file is still in the staging directory.
\<close>

theorem executor_temp_file_kept_counterexample:
  "status_code not_found = 404
   \<and> CDS_Odata_download_one_product_v2
       ((respond not_found)\<lparr>remove_denied := (\<lambda>p. True)\<rparr>) example_conf ''Bearer t''
       ''https://download/1'' ''/out/S1A.zip'' (Some ''/tok/lease.txt'') example_world
     = ((NaN, ''Not Found'', ''S1A'', Some ''/tok/lease.txt''),
        example_world\<lparr>fs := [(''/pre/S1A.zip.tmp'', \<lparr>content = [], mode = 420\<rparr>)],
          time_reads := 2, gets := [(''https://download/1'', ''Bearer t'')]\<rparr>)"
  by (simp add: exec_defs example_defs respond_def not_found_def AList.delete_eq
       whole_megabytes_def)

text \<open>
  Claim C7, amended: when the temporary file cannot be opened, the GET raises, the status
  is not 2xx, the content-length header is not an integer, or the stream breaks, the
  executor tries to delete the temporary file: afterwards the temporary path is absent
  unless the system refuses the removal (the OSError is swallowed), the final path is as it
  was before, and the speed is NaN. The outcome is \<open>RequestError: ...\<close> for an exception
  before streaming, the reason phrase of the response for an HTTP status that ends the
  download, \<open>ChunkedEncodingError\<close> for a chunked-encoding error in the stream, and
  \<open>StreamError: ...\<close> for any other exception in the stream; the last two differ.
\<close>

theorem executor_failure_cleanup:
  assumes run: "CDS_Odata_download_one_product_v2 e cf headers address output_filepath tok w
                  = ((sp, sm, sb, tf), w')"
    and tmp: "tmp = join (pre_spool cf) (basename output_filepath @ ''.tmp'')"
    and failure:
      "open_error e tmp \<noteq> None
       \<or> (case endpoint e (length (gets w)) of
             GetRaises m \<Rightarrow> True
           | GetResponse r \<Rightarrow>
               \<not> (200 \<le> status_code r \<and> status_code r < 300)
               \<or> (ok r \<and> (\<exists>m. content_length r = NotInt m))
               \<or> (ok r \<and> stream_end r \<noteq> Complete))"
  shows "(\<not> remove_denied e tmp \<longrightarrow> map_of (fs w') tmp = None)
       \<and> map_of (fs w') output_filepath = map_of (fs w) output_filepath
       \<and> sp = NaN
       \<and> (case open_error e tmp of
             Some m \<Rightarrow> sm = ''RequestError: '' @ m
           | None \<Rightarrow>
              (case endpoint e (length (gets w)) of
                 GetRaises m \<Rightarrow> sm = ''RequestError: '' @ m
               | GetResponse r \<Rightarrow>
                   if \<not> ok r then sm = reason r
                   else (case content_length r of
                           NotInt m \<Rightarrow> sm = ''RequestError: '' @ m
                         | _ \<Rightarrow> (case stream_end r of
                                   Complete \<Rightarrow> sm = reason r
                                 | ChunkedEncodingError \<Rightarrow> sm = ''ChunkedEncodingError''
                                 | StreamException m \<Rightarrow> sm = ''StreamError: '' @ m))))
       \<and> (\<forall>m. ''ChunkedEncodingError'' \<noteq> ''StreamError: '' @ m)"
  using assms tmp_neq [of "pre_spool cf" output_filepath]
  by (auto simp: exec_defs fs_simps
        split: option.splits if_splits get_result.splits header_int.splits stream_end.splits)

text \<open>
  After a 404 answer, and after a 200 answer whose stream breaks with a chunked-encoding
  error, the staging directory is empty again and the outcomes are \<open>Not Found\<close> and
  \<open>ChunkedEncodingError\<close>.
\<close>

theorem executor_failure_cleanup_witness:
  "status_code not_found = 404
   \<and> CDS_Odata_download_one_product_v2 (respond not_found) example_conf ''Bearer t''
       ''https://download/1'' ''/out/S1A.zip'' (Some ''/tok/lease.txt'') example_world
     = ((NaN, ''Not Found'', ''S1A'', Some ''/tok/lease.txt''),
        example_world\<lparr>time_reads := 2, gets := [(''https://download/1'', ''Bearer t'')]\<rparr>)
   \<and> stream_end ok_broken = ChunkedEncodingError
   \<and> fst (CDS_Odata_download_one_product_v2 (respond ok_broken) example_conf ''Bearer t''
       ''https://download/1'' ''/out/S1A.zip'' (Some ''/tok/lease.txt'') example_world)
     = (NaN, ''ChunkedEncodingError'', ''S1A'', Some ''/tok/lease.txt'')
   \<and> map_of (fs (snd (CDS_Odata_download_one_product_v2 (respond ok_broken) example_conf
       ''Bearer t'' ''https://download/1'' ''/out/S1A.zip'' (Some ''/tok/lease.txt'')
       example_world))) ''/pre/S1A.zip.tmp'' = None"
proof -
  have f1: "open_error (respond not_found)
              (join (pre_spool example_conf) (basename ''/out/S1A.zip'' @ ''.tmp'')) \<noteq> None
       \<or> (case endpoint (respond not_found) (length (gets example_world)) of
             GetRaises m \<Rightarrow> True
           | GetResponse r \<Rightarrow>
               \<not> (200 \<le> status_code r \<and> status_code r < 300)
               \<or> (ok r \<and> (\<exists>m. content_length r = NotInt m))
               \<or> (ok r \<and> stream_end r \<noteq> Complete))"
    by (simp add: respond_def example_env_def not_found_def)
  have f2: "open_error (respond ok_broken)
              (join (pre_spool example_conf) (basename ''/out/S1A.zip'' @ ''.tmp'')) \<noteq> None
       \<or> (case endpoint (respond ok_broken) (length (gets example_world)) of
             GetRaises m \<Rightarrow> True
           | GetResponse r \<Rightarrow>
               \<not> (200 \<le> status_code r \<and> status_code r < 300)
               \<or> (ok r \<and> (\<exists>m. content_length r = NotInt m))
               \<or> (ok r \<and> stream_end r \<noteq> Complete))"
    by (simp add: respond_def example_env_def ok_broken_def ok_def)
  have facts: "status_code not_found = 404" "stream_end ok_broken = ChunkedEncodingError"
    by (simp_all add: not_found_def ok_broken_def)
  show ?thesis
    using executor_failure_cleanup [OF run_not_found refl f1]
          executor_failure_cleanup [OF run_ok_broken refl f2] facts
    by (simp add: run_not_found run_ok_broken) (simp add: example_world_def)
qed

section \<open>The scheduling loop\<close>

lemmas loop_defs = download_list_product_multithread_v2_def loop_round_def harvest_def
  harvest_try_def harvest_except_def update_blacklist_def set_status_def incr_def index_opt_def
  check_safe_in_archive_def check_safe_in_spool_def check_safe_in_outputdir_def
  remove_semaphore_token_file_def token_file_name_def path_exists_def Let_def

lemmas loop_example_defs = failing_deps_def working_deps_def one_account_conf_def
  grant_alice_def pool_answers_def two_products_def example_env_def example_conf_def
  example_world_def join_def basename_def str_replace_def startswith_def endswith_def

subsection \<open>The blacklist\<close>

lemma foldl_append_if:
  "foldl (\<lambda>b a. if P a then b @ [a] else b) bl xs = bl @ filter P xs"
  by (induction xs arbitrary: bl) auto

lemma update_blacklist_eq:
  "update_blacklist dp errs bl
     = bl @ filter (\<lambda>a. the (map_of errs a) \<ge> MAX_SESSION_PER_ACCOUNT dp) (map fst errs)"
  by (simp add: update_blacklist_def foldl_append_if)

lemma update_blacklist_contains:
  assumes "map_of errs acco = Some n" "MAX_SESSION_PER_ACCOUNT dp \<le> n"
  shows "acco \<in> set (update_blacklist dp errs bl)"
proof -
  have "(acco, n) \<in> set errs" using assms(1) by (rule map_of_SomeD)
  then have "acco \<in> fst ` set errs" by force
  then show ?thesis using assms by (auto simp: update_blacklist_eq)
qed

lemma blacklist_harvest_try:
  "harvest_try e cf dp fut st errs = Some (st', errs') \<Longrightarrow> blacklist st' = blacklist st"
  by (auto simp: harvest_try_def Let_def split: future_result.splits option.splits prod.splits if_splits)

lemma blacklist_harvest_except: "blacklist (harvest_except e g st) = blacklist st"
  by (auto simp: harvest_except_def Let_def split: option.splits)

lemma blacklist_harvest: "blacklist (fst (harvest e cf dp acc gf)) = blacklist (fst acc)"
  by (cases "harvest_try e cf dp (snd gf) (fst acc) (snd acc)")
     (auto simp: harvest_def blacklist_harvest_except dest: blacklist_harvest_try)

lemma blacklist_foldl_harvest:
  "blacklist (fst (foldl (harvest e cf dp) acc completed)) = blacklist (fst acc)"
  by (induction completed arbitrary: acc) (auto simp: blacklist_harvest)

lemma loop_round_blacklist:
  assumes "loop_round e cf dp ag k st = Continue st' \<or> loop_round e cf dp ag k st = Break st'"
  shows "\<exists>ys. blacklist st' = blacklist st @ ys"
proof -
  obtain batch w1 where b:
    "get_sessions_download_available dp cf (filter (\<lambda>r. status r = 0) (df2 st))
       (blacklist st) ag (wld st) = (batch, w1)"
    by (cases "get_sessions_download_available dp cf (filter (\<lambda>r. status r = 0) (df2 st))
       (blacklist st) ag (wld st)")
  show ?thesis
  proof (cases "batch = []")
    case True
    with assms b have "blacklist st' = blacklist st"
      by (auto simp: loop_round_def split: option.splits if_splits)
    then show ?thesis by simp
  next
    case False
    obtain completed w2 where c: "as_completed dp k batch w1 = (completed, w2)"
      by (cases "as_completed dp k batch w1")
    obtain st1 errs where h:
      "foldl (harvest e cf dp) (st\<lparr>wld := w2\<rparr>, []) completed = (st1, errs)"
      by (cases "foldl (harvest e cf dp) (st\<lparr>wld := w2\<rparr>, []) completed")
    have "blacklist st1 = blacklist st"
      using blacklist_foldl_harvest [of e cf dp "(st\<lparr>wld := w2\<rparr>, [])" completed] h by simp
    moreover have "st' = st1\<lparr>blacklist := update_blacklist dp errs (blacklist st1)\<rparr>"
      using assms b c h False by (simp add: loop_round_def)
    ultimately show ?thesis by (simp add: update_blacklist_eq)
  qed
qed


lemma state_after_extends:
  "\<exists>ys. blacklist (state_after n e cf dp ag k st) = blacklist st @ ys"
proof (induction n arbitrary: k st)
  case 0
  then show ?case by simp
next
  case (Suc n)
  show ?case
  proof (cases "list_ex (\<lambda>r. status r = 0) (df2 st)")
    case False
    then show ?thesis by simp
  next
    case True
    show ?thesis
    proof (cases "loop_round e cf dp ag (Suc k) st")
      case (Continue st')
      then obtain ys where "blacklist st' = blacklist st @ ys"
        using loop_round_blacklist by blast
      moreover obtain zs where
        "blacklist (state_after n e cf dp ag (Suc k) st') = blacklist st' @ zs"
        using Suc.IH by blast
      ultimately show ?thesis using True Continue by simp
    next
      case (Break st')
      then show ?thesis using True loop_round_blacklist by simp blast
    next
      case (Fault x)
      then show ?thesis using True by simp
    qed
  qed
qed

lemma state_after_mono:
  "m \<le> n \<Longrightarrow>
     \<exists>ys. blacklist (state_after n e cf dp ag k st)
            = blacklist (state_after m e cf dp ag k st) @ ys"
proof (induction m arbitrary: n k st)
  case 0
  then show ?case using state_after_extends by simp
next
  case (Suc m)
  then obtain n' where n: "n = Suc n'" "m \<le> n'" by (cases n) auto
  show ?case
  proof (cases "list_ex (\<lambda>r. status r = 0) (df2 st)")
    case False
    then show ?thesis using n by simp
  next
    case True
    show ?thesis
    proof (cases "loop_round e cf dp ag (Suc k) st")
      case (Continue st')
      then show ?thesis using True n Suc.IH [OF n(2)] by simp
    next
      case (Break st')
      then show ?thesis using True n by simp
    next
      case (Fault x)
      then show ?thesis using True n by simp
    qed
  qed
qed


text \<open>
  Claim C8. After the harvest of a scheduling round, every account whose error counter of
  that round (\<open>errors_per_account\<close>) has reached \<open>MAX_SESSION_PER_ACCOUNT\<close> is on the
  blacklist, and blacklisting is one-way: the round removes no account from the blacklist,
  and over the turns of the loop the blacklist after \<open>i\<close> turns is contained in the
  blacklist after any later number \<open>j\<close> of turns.
\<close>

theorem blacklist_grows_only:
  assumes round: "loop_round e cf dp ag k st = Continue st'"
    and batch: "get_sessions_download_available dp cf (filter (\<lambda>r. status r = 0) (df2 st))
                  (blacklist st) ag (wld st) = (batch, w1)" "batch \<noteq> []"
    and comp: "as_completed dp k batch w1 = (completed, w2)"
    and harv: "foldl (harvest e cf dp) (st\<lparr>wld := w2\<rparr>, []) completed = (st1, errors_per_account)"
  shows "(\<forall>acco n. map_of errors_per_account acco = Some n \<and> MAX_SESSION_PER_ACCOUNT dp \<le> n
            \<longrightarrow> acco \<in> set (blacklist st'))
       \<and> set (blacklist st) \<subseteq> set (blacklist st')
       \<and> (\<forall>i j. i \<le> j \<longrightarrow>
             set (blacklist (state_after i e cf dp ag k0 st0))
               \<subseteq> set (blacklist (state_after j e cf dp ag k0 st0)))"
proof (intro conjI allI impI)
  have st': "st' = st1\<lparr>blacklist := update_blacklist dp errors_per_account (blacklist st1)\<rparr>"
    using round batch comp harv by (simp add: loop_round_def)
  fix acco n
  assume "map_of errors_per_account acco = Some n \<and> MAX_SESSION_PER_ACCOUNT dp \<le> n"
  then show "acco \<in> set (blacklist st')"
    using st' update_blacklist_contains by simp
next
  show "set (blacklist st) \<subseteq> set (blacklist st')"
    using loop_round_blacklist [of e cf dp ag k st st'] round by auto
next
  fix i j :: nat
  assume "i \<le> j"
  then show "set (blacklist (state_after i e cf dp ag k0 st0))
               \<subseteq> set (blacklist (state_after j e cf dp ag k0 st0))"
    using state_after_mono [of i j e cf dp ag k0 st0] by auto
qed

text \<open>
  With one session per account and a failing download, the first round puts \<open>alice\<close> on
  the blacklist, and she is still there after the second turn.
\<close>

lemma first_round_failing:
  "loop_round example_env one_account_conf failing_deps ''logins'' 1
      \<lparr>df2 = two_products, blacklist = [], cpt = [], all_speeds = [], wld = example_world\<rparr>
   = Continue
      \<lparr>df2 = [\<lparr>safe = ''S1A'', status = - 1, ident = ''id1'',
                urls = ''https://download/id1'', outputpath = ''/out/S1A.zip''\<rparr>,
              \<lparr>safe = ''S1B'', status = 0, ident = ''id2'',
                urls = ''https://download/id2'', outputpath = ''/out/S1B.zip''\<rparr>],
       blacklist = [''alice''], cpt = [(''status_Not Found'', 1)], all_speeds = [],
       wld = example_world\<rparr>"
  by (simp add: loop_defs loop_example_defs)

lemma after_one_failing:
  "state_after 1 example_env one_account_conf failing_deps ''logins'' 0
      \<lparr>df2 = two_products, blacklist = [], cpt = [], all_speeds = [], wld = example_world\<rparr>
   = \<lparr>df2 = [\<lparr>safe = ''S1A'', status = - 1, ident = ''id1'',
                urls = ''https://download/id1'', outputpath = ''/out/S1A.zip''\<rparr>,
              \<lparr>safe = ''S1B'', status = 0, ident = ''id2'',
                urls = ''https://download/id2'', outputpath = ''/out/S1B.zip''\<rparr>],
       blacklist = [''alice''], cpt = [(''status_Not Found'', 1)], all_speeds = [],
       wld = example_world\<rparr>"
  using first_round_failing by (simp add: two_products_def)

lemma after_two_failing:
  "state_after 2 example_env one_account_conf failing_deps ''logins'' 0
      \<lparr>df2 = two_products, blacklist = [], cpt = [], all_speeds = [], wld = example_world\<rparr>
   = \<lparr>df2 = [\<lparr>safe = ''S1A'', status = - 1, ident = ''id1'',
                urls = ''https://download/id1'', outputpath = ''/out/S1A.zip''\<rparr>,
              \<lparr>safe = ''S1B'', status = 0, ident = ''id2'',
                urls = ''https://download/id2'', outputpath = ''/out/S1B.zip''\<rparr>],
       blacklist = [''alice''], cpt = [(''status_Not Found'', 1)], all_speeds = [],
       wld = example_world\<rparr>"
  by (simp add: loop_defs loop_example_defs numeral_2_eq_2)

theorem blacklist_grows_only_witness:
  "MAX_SESSION_PER_ACCOUNT failing_deps = 1
   \<and> loop_round example_env one_account_conf failing_deps ''logins'' 1
        \<lparr>df2 = two_products, blacklist = [], cpt = [], all_speeds = [], wld = example_world\<rparr>
     = Continue
        \<lparr>df2 = [\<lparr>safe = ''S1A'', status = - 1, ident = ''id1'',
                  urls = ''https://download/id1'', outputpath = ''/out/S1A.zip''\<rparr>,
                \<lparr>safe = ''S1B'', status = 0, ident = ''id2'',
                  urls = ''https://download/id2'', outputpath = ''/out/S1B.zip''\<rparr>],
         blacklist = [''alice''], cpt = [(''status_Not Found'', 1)], all_speeds = [],
         wld = example_world\<rparr>
   \<and> blacklist (state_after 1 example_env one_account_conf failing_deps ''logins'' 0
        \<lparr>df2 = two_products, blacklist = [], cpt = [], all_speeds = [],
          wld = example_world\<rparr>) = [''alice'']
   \<and> blacklist (state_after 2 example_env one_account_conf failing_deps ''logins'' 0
        \<lparr>df2 = two_products, blacklist = [], cpt = [], all_speeds = [],
          wld = example_world\<rparr>) = [''alice'']"
proof -
  let ?st = "\<lparr>df2 = two_products, blacklist = [], cpt = [], all_speeds = [],
               wld = example_world\<rparr>"
  have batch: "get_sessions_download_available failing_deps one_account_conf
                 (filter (\<lambda>r. status r = 0) (df2 ?st)) (blacklist ?st) ''logins'' (wld ?st)
               = ([grant_alice (hd two_products)], example_world)"
    by (simp add: failing_deps_def two_products_def)
  have ne: "[grant_alice (hd two_products)] \<noteq> []"
    by simp
  have comp: "as_completed failing_deps 1 [grant_alice (hd two_products)] example_world
              = ([pool_answers NaN ''Not Found'' (grant_alice (hd two_products))],
                 example_world)"
    by (simp add: failing_deps_def)
  have harv: "foldl (harvest example_env one_account_conf failing_deps)
                (?st\<lparr>wld := example_world\<rparr>, [])
                [pool_answers NaN ''Not Found'' (grant_alice (hd two_products))]
              = (\<lparr>df2 = [\<lparr>safe = ''S1A'', status = - 1, ident = ''id1'',
                           urls = ''https://download/id1'', outputpath = ''/out/S1A.zip''\<rparr>,
                         \<lparr>safe = ''S1B'', status = 0, ident = ''id2'',
                           urls = ''https://download/id2'', outputpath = ''/out/S1B.zip''\<rparr>],
                  blacklist = [], cpt = [(''status_Not Found'', 1)], all_speeds = [],
                  wld = example_world\<rparr>, [(''alice'', 1)])"
    by (simp add: loop_defs loop_example_defs)
  note inst = blacklist_grows_only [OF first_round_failing batch ne comp harv, of 0 ?st]
  have listed: "''alice'' \<in> set (blacklist
      \<lparr>df2 = [\<lparr>safe = ''S1A'', status = - 1, ident = ''id1'',
                urls = ''https://download/id1'', outputpath = ''/out/S1A.zip''\<rparr>,
              \<lparr>safe = ''S1B'', status = 0, ident = ''id2'',
                urls = ''https://download/id2'', outputpath = ''/out/S1B.zip''\<rparr>],
       blacklist = [''alice''], cpt = [(''status_Not Found'', 1)], all_speeds = [],
       wld = example_world\<rparr>)"
    using inst by simp
  have later: "set (blacklist (state_after 1 example_env one_account_conf failing_deps
                  ''logins'' 0 ?st))
               \<subseteq> set (blacklist (state_after 2 example_env one_account_conf failing_deps
                  ''logins'' 0 ?st))"
    by (rule inst [THEN conjunct2, THEN conjunct2, rule_format]) simp
  show ?thesis
    unfolding first_round_failing after_one_failing after_two_failing
    using listed later [unfolded after_one_failing after_two_failing]
    by (simp add: failing_deps_def)
qed

subsection \<open>The statuses at the end of a run\<close>

lemma set_status_keeps:
  assumes "v = 1 \<or> v = - 1" "\<forall>r\<in>set rows. status r = 0 \<or> status r = 1 \<or> status r = - 1"
  shows "\<forall>r\<in>set (set_status name v rows). status r = 0 \<or> status r = 1 \<or> status r = - 1"
  using assms by (auto simp: set_status_def)

lemma set_status_safe: "map safe (set_status name v rows) = map safe rows"
  by (induction rows) (auto simp: set_status_def)

lemma harvest_try_df2:
  assumes "harvest_try e cf dp fut st errs = Some (st', errs')"
  shows "\<exists>name v. (v = 1 \<or> v = - 1) \<and> df2 st' = set_status name v (df2 st)"
  using assms
  by (auto simp: harvest_try_def Let_def
        split: future_result.splits option.splits prod.splits if_splits) blast+

lemma harvest_try_rows:
  assumes "harvest_try e cf dp fut st errs = Some (st', errs')"
    and "\<forall>r\<in>set (df2 st). status r = 0 \<or> status r = 1 \<or> status r = - 1"
  shows "(\<forall>r\<in>set (df2 st'). status r = 0 \<or> status r = 1 \<or> status r = - 1)
       \<and> map safe (df2 st') = map safe (df2 st)"
proof -
  obtain name v where v: "v = 1 \<or> v = - 1" and d: "df2 st' = set_status name v (df2 st)"
    using harvest_try_df2 [OF assms(1)] by blast
  show ?thesis
    using set_status_keeps [OF v assms(2), of name] d by (simp add: set_status_safe)
qed

lemma harvest_except_rows:
  assumes "\<forall>r\<in>set (df2 st). status r = 0 \<or> status r = 1 \<or> status r = - 1"
  shows "(\<forall>r\<in>set (df2 (harvest_except e g st)). status r = 0 \<or> status r = 1 \<or> status r = - 1)
       \<and> map safe (df2 (harvest_except e g st)) = map safe (df2 st)"
proof -
  have d: "df2 (harvest_except e g st) = set_status (grant_safe g) (- 1) (df2 st)"
    by (auto simp: harvest_except_def Let_def split: option.splits)
  have v: "(- 1 :: int) = 1 \<or> (- 1 :: int) = - 1" by simp
  show ?thesis
    using set_status_keeps [OF v assms, of "grant_safe g"] d by (simp add: set_status_safe)
qed

lemma harvest_rows:
  assumes "\<forall>r\<in>set (df2 (fst acc)). status r = 0 \<or> status r = 1 \<or> status r = - 1"
  shows "(\<forall>r\<in>set (df2 (fst (harvest e cf dp acc gf))). status r = 0 \<or> status r = 1 \<or> status r = - 1)
       \<and> map safe (df2 (fst (harvest e cf dp acc gf))) = map safe (df2 (fst acc))"
proof (cases "harvest_try e cf dp (snd gf) (fst acc) (snd acc)")
  case None
  then show ?thesis using harvest_except_rows [OF assms] by (simp add: harvest_def)
next
  case (Some r)
  then obtain st' errs' where "r = (st', errs')" by (cases r)
  with Some show ?thesis using harvest_try_rows [OF _ assms] by (simp add: harvest_def)
qed

lemma foldl_harvest_rows:
  assumes "\<forall>r\<in>set (df2 (fst acc)). status r = 0 \<or> status r = 1 \<or> status r = - 1"
  shows "(\<forall>r\<in>set (df2 (fst (foldl (harvest e cf dp) acc completed))).
            status r = 0 \<or> status r = 1 \<or> status r = - 1)
       \<and> map safe (df2 (fst (foldl (harvest e cf dp) acc completed))) = map safe (df2 (fst acc))"
  using assms
proof (induction completed arbitrary: acc)
  case Nil
  then show ?case by simp
next
  case (Cons gf completed)
  have step: "\<forall>r\<in>set (df2 (fst (harvest e cf dp acc gf))). status r = 0 \<or> status r = 1 \<or> status r = - 1"
    and names: "map safe (df2 (fst (harvest e cf dp acc gf))) = map safe (df2 (fst acc))"
    using harvest_rows [OF Cons.prems] by auto
  show ?case using Cons.IH [OF step] names by simp
qed

lemma loop_round_rows:
  assumes "loop_round e cf dp ag k st = Continue st'"
    and "\<forall>r\<in>set (df2 st). status r = 0 \<or> status r = 1 \<or> status r = - 1"
  shows "(\<forall>r\<in>set (df2 st'). status r = 0 \<or> status r = 1 \<or> status r = - 1)
       \<and> map safe (df2 st') = map safe (df2 st)"
proof -
  obtain batch w1 where b:
    "get_sessions_download_available dp cf (filter (\<lambda>r. status r = 0) (df2 st))
       (blacklist st) ag (wld st) = (batch, w1)"
    by (cases "get_sessions_download_available dp cf (filter (\<lambda>r. status r = 0) (df2 st))
       (blacklist st) ag (wld st)")
  show ?thesis
  proof (cases "batch = []")
    case True
    with assms b have "df2 st' = df2 st"
      by (auto simp: loop_round_def split: option.splits if_splits)
    then show ?thesis using assms(2) by simp
  next
    case False
    obtain completed w2 where c: "as_completed dp k batch w1 = (completed, w2)"
      by (cases "as_completed dp k batch w1")
    obtain st1 errs where h:
      "foldl (harvest e cf dp) (st\<lparr>wld := w2\<rparr>, []) completed = (st1, errs)"
      by (cases "foldl (harvest e cf dp) (st\<lparr>wld := w2\<rparr>, []) completed")
    have "df2 st' = df2 st1"
      using assms(1) b c h False by (auto simp: loop_round_def)
    moreover have "(\<forall>r\<in>set (df2 st1). status r = 0 \<or> status r = 1 \<or> status r = - 1)
       \<and> map safe (df2 st1) = map safe (df2 st)"
      using foldl_harvest_rows [of "(st\<lparr>wld := w2\<rparr>, [])" e cf dp completed] assms(2) h
      by simp
    ultimately show ?thesis by simp
  qed
qed

lemma loop_round_break:
  assumes "loop_round e cf dp ag k st = Break st'"
  shows "df2 st' = df2 st \<and> blacklist st' = blacklist st
       \<and> (\<exists>accounts. groups cf ag = Some accounts \<and> length accounts \<le> length (blacklist st))"
  using assms
  by (auto simp: loop_round_def Let_def split: prod.splits option.splits if_splits)


text \<open>
  Claim C1, as the spec states it: after a run of \<open>download_list_product_multithread_v2\<close>
  every item is \<open>success\<close> or \<open>failed\<close>, and when the loop ends because every account
  is blacklisted the remaining pending items are marked failed. The \<open>break\<close> leaves the
  loop without touching \<open>df2\<close>: with the single account \<open>alice\<close>, one session per
  account and failing downloads, the first round fails \<open>S1A\<close> and blacklists \<open>alice\<close>,
  the second round gets an empty batch and breaks, and the run returns \<open>S1B\<close> with
  status 0.
\<close>

theorem run_leaves_item_pending_counterexample:
  "download_list_product_multithread_v2 3 example_env one_account_conf failing_deps
      [''id1'', ''id2''] [''S1A'', ''S1B''] ''/out'' ''logins'' True example_world
   = Some (Inr ([\<lparr>safe = ''S1A'', status = - 1, ident = ''id1'',
                   urls = ''https://download/id1'', outputpath = ''/out/S1A.zip''\<rparr>,
                 \<lparr>safe = ''S1B'', status = 0, ident = ''id2'',
                   urls = ''https://download/id2'', outputpath = ''/out/S1B.zip''\<rparr>],
                example_world))"
  by (simp add: loop_defs loop_example_defs numeral_3_eq_3)

text \<open>
  Claim C1, amended: when the loop of \<open>download_list_product_multithread_v2\<close> ends, no
  item has been added or removed, and either the loop ended because no item was left at
  status 0, and then every item is \<open>success\<close> (1) or \<open>failed\<close> (-1); or it ended by
  the \<open>break\<close> taken when the batch is empty and the blacklist is at least as long as
  the account group, and then at least one item is still pending (status 0): the pending
  items are left as they are, not marked failed. (The function returns the table \<open>df2\<close>
  of the state in which the loop ends.)
\<close>

theorem scheduling_loop_statuses:
  assumes "scheduling_loop fuel e cf dp ag k st = Some (Inr (st', how))"
      and "\<forall>r\<in>set (df2 st). status r = 0 \<or> status r = 1 \<or> status r = - 1"
  shows "map safe (df2 st') = map safe (df2 st)
       \<and> (how = Drained \<longrightarrow> (\<forall>r\<in>set (df2 st'). status r = 1 \<or> status r = - 1))
       \<and> (how = AllBlacklisted \<longrightarrow>
            (\<exists>r\<in>set (df2 st'). status r = 0)
          \<and> (\<forall>r\<in>set (df2 st'). status r = 0 \<or> status r = 1 \<or> status r = - 1)
          \<and> (\<exists>accounts. groups cf ag = Some accounts
                \<and> length accounts \<le> length (blacklist st')))"
  using assms
proof (induction fuel arbitrary: k st)
  case 0
  then show ?case by simp
next
  case (Suc fuel)
  show ?case
  proof (cases "list_ex (\<lambda>r. status r = 0) (df2 st)")
    case False
    then have "st' = st" "how = Drained" using Suc.prems(1) by auto
    then show ?thesis using False Suc.prems(2) by (auto simp: list_ex_iff)
  next
    case True
    show ?thesis
    proof (cases "loop_round e cf dp ag (Suc k) st")
      case (Continue st1)
      then have run: "scheduling_loop fuel e cf dp ag (Suc k) st1 = Some (Inr (st', how))"
        using True Suc.prems(1) by simp
      have rows: "\<forall>r\<in>set (df2 st1). status r = 0 \<or> status r = 1 \<or> status r = - 1"
        and names: "map safe (df2 st1) = map safe (df2 st)"
        using loop_round_rows [OF Continue Suc.prems(2)] by auto
      show ?thesis using Suc.IH [OF run rows] names by simp
    next
      case (Break st1)
      then have "st' = st1" "how = AllBlacklisted" using True Suc.prems(1) by auto
      then show ?thesis
        using loop_round_break [OF Break] True Suc.prems(2) by (auto simp: list_ex_iff)
    next
      case (Fault x)
      then show ?thesis using True Suc.prems(1) by simp
    qed
  qed
qed

text \<open>
  With downloads that succeed, two rounds drain the two products and the loop ends with
  both at status 1; with downloads that fail, it ends by the break with \<open>S1B\<close> pending.
\<close>

lemma loop_failing:
  "scheduling_loop 3 example_env one_account_conf failing_deps ''logins'' 0
      \<lparr>df2 = two_products, blacklist = [], cpt = [], all_speeds = [], wld = example_world\<rparr>
   = Some (Inr (\<lparr>df2 = [\<lparr>safe = ''S1A'', status = - 1, ident = ''id1'',
                   urls = ''https://download/id1'', outputpath = ''/out/S1A.zip''\<rparr>,
                 \<lparr>safe = ''S1B'', status = 0, ident = ''id2'',
                   urls = ''https://download/id2'', outputpath = ''/out/S1B.zip''\<rparr>],
                  blacklist = [''alice''], cpt = [(''status_Not Found'', 1)], all_speeds = [],
                  wld = example_world\<rparr>, AllBlacklisted))"
  by (simp add: loop_defs loop_example_defs numeral_3_eq_3)

lemma loop_working:
  "scheduling_loop 3 example_env one_account_conf working_deps ''logins'' 0
      \<lparr>df2 = two_products, blacklist = [], cpt = [], all_speeds = [], wld = example_world\<rparr>
   = Some (Inr (\<lparr>df2 = [\<lparr>safe = ''S1A'', status = 1, ident = ''id1'',
                   urls = ''https://download/id1'', outputpath = ''/out/S1A.zip''\<rparr>,
                 \<lparr>safe = ''S1B'', status = 1, ident = ''id2'',
                   urls = ''https://download/id2'', outputpath = ''/out/S1B.zip''\<rparr>],
                  blacklist = [], cpt = [(''successful_download'', 2), (''status_OK'', 2)],
                  all_speeds = [Speed 7, Speed 7],
                  wld = example_world\<rparr>, Drained))"
  by (simp add: loop_defs loop_example_defs numeral_3_eq_3)

theorem scheduling_loop_statuses_witness:
  "map status (df2 (fst (projr (the
      (scheduling_loop 3 example_env one_account_conf working_deps ''logins'' 0
         \<lparr>df2 = two_products, blacklist = [], cpt = [], all_speeds = [],
           wld = example_world\<rparr>))))) = [1, 1]
   \<and> snd (projr (the
      (scheduling_loop 3 example_env one_account_conf working_deps ''logins'' 0
         \<lparr>df2 = two_products, blacklist = [], cpt = [], all_speeds = [],
           wld = example_world\<rparr>))) = Drained
   \<and> map status (df2 (fst (projr (the
      (scheduling_loop 3 example_env one_account_conf failing_deps ''logins'' 0
         \<lparr>df2 = two_products, blacklist = [], cpt = [], all_speeds = [],
           wld = example_world\<rparr>))))) = [- 1, 0]
   \<and> snd (projr (the
      (scheduling_loop 3 example_env one_account_conf failing_deps ''logins'' 0
         \<lparr>df2 = two_products, blacklist = [], cpt = [], all_speeds = [],
           wld = example_world\<rparr>))) = AllBlacklisted"
proof -
  have rows: "\<forall>r\<in>set (df2 \<lparr>df2 = two_products, blacklist = [], cpt = [], all_speeds = [],
                            wld = example_world\<rparr>).
                status r = 0 \<or> status r = 1 \<or> status r = - 1"
    by (simp add: two_products_def)
  show ?thesis
    using scheduling_loop_statuses [OF loop_working rows]
          scheduling_loop_statuses [OF loop_failing rows]
    by (simp add: loop_working loop_failing)
qed

section \<open>Token leases: age\<close>













text \<open>
  In the world with the two leases of \<open>alice\<close> and the clock at 700 seconds: the
  listing returns the lease issued at second 600 only; the downloader starts from it
  without a request to the identity endpoint; a download with that lease held sends its
  GET with the held token; a download with the lease of second 0 held first obtains the
  token \<open>fresh\<close> and sends its GET with it.
\<close>

lemmas token_defs = get_list_of_exising_token_def glob_tokens_def initial_token_def
  download_absent_product_def get_bearer_access_token_def write_token_semphore_file_def
  remove_semaphore_token_file_def token_file_name_def read_first_line_def first_line_def
  bearer_def random_choice_def today_def total_seconds_def MAX_VALIDITY_ACCESS_TOKEN_def
  index_opt_def all_None_def

lemmas lease_defs = lease_world_def old_lease_def young_lease_def minting_env_def
  failing_deps_def


lemma reuse:
  "initial_token example_env example_conf (Some ''alice'') None lease_world
   = (Inr (Some ''t1'', Some 600000000,
           Some ''/tok/CDSE_access_token_alice_20240101t001000.txt''),
      lease_world\<lparr>ticks := 2, draws := 1\<rparr>)"
  by (simp add: token_defs lease_defs example_defs)


lemma renewed:
  "download_absent_product minting_env example_conf failing_deps ''/out'' ''id1'' ''S1A''
      ''Bearer t0'' (Some 0) (Some ''alice'')
      (Some ''/tok/CDSE_access_token_alice_20240101t000000.txt'') lease_world
   = (Inr ((''Bearer fresh'', Some 700000001, Some ''alice'',
            Some ''/tok/CDSE_access_token_alice_20240101t001000.txt''),
           NaN, ''RequestError: unreachable''),
      lease_world\<lparr>fs := [old_lease,
               (''/tok/CDSE_access_token_alice_20240101t001000.txt'',
                \<lparr>content = ''fresh'', mode = 420\<rparr>)],
        ticks := 3, time_reads := 2,
        posts := [\<lparr>client_id = ''cdse-public'', username = ''alice'', password = ''pa'',
                   grant_type = ''password''\<rparr>],
        gets := [(''https://download/id1'', ''Bearer fresh'')]\<rparr>)"
  by (simp add: token_defs lease_defs example_defs exec_defs AList.delete_eq)


end
